theory Spec2Isabelle
  imports Main "HOL-Library.Sublist"
begin

section \<open>Python values and exceptions\<close>

text \<open>
  The objects of the Intrinio SDK that the data provider touches. A date is Python's
  \<^verbatim>\<open>datetime.date\<close>; prices and metric values are carried unchanged, so their type is a
  parameter \<open>'v\<close>.
\<close>

datatype pydate = Date (d_year: int) (d_month: int) (d_day: int)

datatype 'v stock_price = StockPrice (price_date: pydate) (price_close: 'v)

datatype 'v datapoint = Datapoint (dp_date: pydate) (dp_value: 'v)

datatype 'v financial = Financial (data_tag_tag: string) (fin_value: 'v)

text \<open>
  What a cache slot or an API call can hold: \<^verbatim>\<open>None\<close>, a string, or one of the three SDK
  response objects with its single list attribute (\<^verbatim>\<open>stock_prices\<close>,
  \<^verbatim>\<open>historical_data\<close>, \<^verbatim>\<open>standardized_financials\<close>).
\<close>

datatype 'v pyobj =
    PyNone
  | PyStr string
  | StockPricesResponse "'v stock_price list"
  | HistoricalDataResponse "'v datapoint list"
  | StandardizedFinancialsResponse "'v financial list"

text \<open>
  Exceptions. \<open>ApiException\<close> is the SDK's; \<open>OtherException\<close> is any other exception an API
  call raises; \<open>DataError\<close> and \<open>ValidationError\<close> are the repository's, with the cause they
  wrap (their message strings are not modelled). \<open>AttributeError\<close> and \<open>KeyError\<close> are
  Python's own.
\<close>

datatype pyexn =
    ApiException string
  | OtherException string
  | AttributeError
  | KeyError int
  | DataError "pyexn option"
  | ValidationError "pyexn option"

section \<open>The cache store (support/financial\_cache.py)\<close>

text \<open>
  The disk cache is a dictionary; a key is a Python string or \<^verbatim>\<open>None\<close> (\<open>None\<close> here).
  Eviction by the size cap of the underlying library is not modelled. The methods
  \<^verbatim>\<open>FinancialCache.write\<close> and \<^verbatim>\<open>FinancialCache.read\<close> are \<open>cache_write\<close> and \<open>cache_read\<close>.
\<close>

type_synonym 'v cache = "string option \<rightharpoonup> 'v pyobj"

definition cache_write :: "'v cache \<Rightarrow> string option \<Rightarrow> 'v pyobj \<Rightarrow> 'v cache" where
  "cache_write c key val =
     (if (key = Some [] \<or> key = None) \<or> (val = PyStr [] \<or> val = PyNone) then c
      else c(key \<mapsto> val))"

definition cache_read :: "'v cache \<Rightarrow> string option \<Rightarrow> 'v pyobj" where
  "cache_read c key = (case c key of Some v \<Rightarrow> v | None \<Rightarrow> PyNone)"

section \<open>String formatting\<close>

text \<open>Python's \<^verbatim>\<open>%d\<close> of an integer: decimal digits, a leading minus sign when negative.\<close>

definition digit_char :: "nat \<Rightarrow> char" where
  "digit_char n = char_of (48 + n)"

fun digits :: "nat \<Rightarrow> string" where
  "digits n = (if n < 10 then [digit_char n] else digits (n div 10) @ [digit_char (n mod 10)])"

declare digits.simps [simp del]

definition str_int :: "int \<Rightarrow> string" where
  "str_int i = (if i < 0 then CHR ''-'' # digits (nat (- i)) else digits (nat i))"

text \<open>
  Python's \<^verbatim>\<open>str.upper()\<close> follows the Unicode case tables, which are not modelled: the
  operations below take it as a parameter \<open>str_upper\<close>, and what is proved about them holds
  for every such function. On ASCII text \<^verbatim>\<open>str.upper()\<close> maps the letters a to z to A to Z
  and leaves every other character alone; \<open>ascii_upper\<close> is that restriction, used for the
  concrete scenarios, whose tickers are ASCII.
\<close>

definition ascii_upper_char :: "char \<Rightarrow> char" where
  "ascii_upper_char c =
     (let n = (of_char c :: nat) in if 97 \<le> n \<and> n \<le> 122 then char_of (n - 32) else c)"

definition ascii_upper :: "string \<Rightarrow> string" where
  "ascii_upper s = map ascii_upper_char s"

section \<open>Cache keys (data\_provider/intrinio\_data.py)\<close>

definition INTRINIO_CACHE_PREFIX :: string where
  "INTRINIO_CACHE_PREFIX = ''intrinio''"

text \<open>Line 66: \<^verbatim>\<open>"%s-%s-%s-%s-%s" % (PREFIX, ticker, start_date_str, end_date_str, "closing-prices")\<close>.\<close>

definition price_cache_key :: "string \<Rightarrow> string \<Rightarrow> string \<Rightarrow> string" where
  "price_cache_key ticker start_date_str end_date_str =
     INTRINIO_CACHE_PREFIX @ ''-'' @ ticker @ ''-'' @ start_date_str @ ''-'' @ end_date_str
       @ ''-'' @ ''closing-prices''"

text \<open>Line 436: \<^verbatim>\<open>"%s-%s-%s-%s-%s-%d" % (PREFIX, "statement", ticker, statement_name, statement_type, i)\<close>.\<close>

definition statement_cache_key :: "string \<Rightarrow> string \<Rightarrow> string \<Rightarrow> int \<Rightarrow> string" where
  "statement_cache_key ticker statement_name statement_type i =
     INTRINIO_CACHE_PREFIX @ ''-'' @ ''statement'' @ ''-'' @ ticker @ ''-'' @ statement_name
       @ ''-'' @ statement_type @ ''-'' @ str_int i"

text \<open>Line 508: \<^verbatim>\<open>"%s-%s-%s-%d-%d-%s-%s" % (PREFIX, "metric", ticker, start_year, end_year, frequency, tag)\<close>.\<close>

definition metric_cache_key :: "string \<Rightarrow> int \<Rightarrow> int \<Rightarrow> string \<Rightarrow> string \<Rightarrow> string" where
  "metric_cache_key ticker start_year end_year frequency tag =
     INTRINIO_CACHE_PREFIX @ ''-'' @ ''metric'' @ ''-'' @ ticker @ ''-'' @ str_int start_year
       @ ''-'' @ str_int end_year @ ''-'' @ frequency @ ''-'' @ tag"

section \<open>The external API and the state of the world\<close>

text \<open>
  The three SDK endpoints the provider calls, with the arguments it passes:
  \<^verbatim>\<open>security_api.get_security_stock_prices(ticker, start_date, end_date, frequency='daily', page_size=100)\<close>,
  \<^verbatim>\<open>company_api.get_company_historical_data(ticker, tag, frequency, start_date, end_date)\<close> and
  \<^verbatim>\<open>fundamentals_api.get_fundamental_standardized_financials(identifier)\<close>.
\<close>

datatype api_request =
    StockPricesRequest string string string
  | HistoricalDataRequest string string string string string
  | StandardizedFinancialsRequest string

datatype 'v api_result = Returned "'v pyobj" | Raised pyexn

text \<open>
  The external service is a parameter. Its answer may depend on the calls made so far, so
  that a service that changes over time, or a test double that counts or fails on a later
  call, is covered.
\<close>

type_synonym 'v external_api = "api_request list \<Rightarrow> api_request \<Rightarrow> 'v api_result"

text \<open>The module-level cache instance and the log of the external calls issued so far.\<close>

record 'v world =
  store :: "'v cache"
  api_log :: "api_request list"

text \<open>Attribute access on a response object; any other object raises \<open>AttributeError\<close>.\<close>

definition stock_prices :: "'v pyobj \<Rightarrow> pyexn + 'v stock_price list" where
  "stock_prices obj = (case obj of StockPricesResponse ps \<Rightarrow> Inr ps | _ \<Rightarrow> Inl AttributeError)"

definition historical_data :: "'v pyobj \<Rightarrow> pyexn + 'v datapoint list" where
  "historical_data obj =
     (case obj of HistoricalDataResponse ds \<Rightarrow> Inr ds | _ \<Rightarrow> Inl AttributeError)"

definition standardized_financials :: "'v pyobj \<Rightarrow> pyexn + 'v financial list" where
  "standardized_financials obj =
     (case obj of StandardizedFinancialsResponse fs \<Rightarrow> Inr fs | _ \<Rightarrow> Inl AttributeError)"

section \<open>Daily close prices\<close>

text \<open>
  \<^verbatim>\<open>get_daily_stock_close_prices\<close>, lines 61 to 89. \<^verbatim>\<open>intrinio_util.date_to_string\<close> is not
  part of the sources at hand and is a parameter.
\<close>

definition get_daily_stock_close_prices ::
  "'v external_api \<Rightarrow> (pydate \<Rightarrow> string) \<Rightarrow> string \<Rightarrow> pydate \<Rightarrow> pydate \<Rightarrow> 'v world
     \<Rightarrow> (pyexn + (string \<rightharpoonup> 'v)) \<times> 'v world" where
  "get_daily_stock_close_prices api date_to_string ticker start_date end_date w =
     (let start_date_str = date_to_string start_date;
          end_date_str = date_to_string end_date;
          cache_key = price_cache_key ticker start_date_str end_date_str;
          request = StockPricesRequest ticker start_date_str end_date_str;
          fetched =
            (if cache_read (store w) (Some cache_key) = PyNone then
               (case api (api_log w) request of
                  Returned r \<Rightarrow>
                    (Inr r, \<lparr>store = cache_write (store w) (Some cache_key) r,
                             api_log = api_log w @ [request]\<rparr>)
                | Raised e \<Rightarrow>
                    (Inl (case e of ApiException x \<Rightarrow> DataError (Some e)
                                  | _ \<Rightarrow> ValidationError (Some e)),
                     \<lparr>store = store w, api_log = api_log w @ [request]\<rparr>))
             else (Inr (cache_read (store w) (Some cache_key)), w))
      in case fetched of
           (Inl e, w') \<Rightarrow> (Inl e, w')
         | (Inr api_response, w') \<Rightarrow>
             (case stock_prices api_response of
                Inl e \<Rightarrow> (Inl e, w')
              | Inr price_list \<Rightarrow>
                  if length price_list = 0 then (Inl (DataError None), w')
                  else (Inr (foldl (\<lambda>price_dict price.
                                      price_dict(date_to_string (price_date price)
                                                   \<mapsto> price_close price))
                               Map.empty price_list), w')))"

section \<open>Historical statements\<close>

text \<open>\<^verbatim>\<open>__transform_financial_stmt__\<close>, lines 369 to 377; the filter is \<^verbatim>\<open>None\<close> or a list.\<close>

definition transform_financial_stmt ::
  "'v financial list \<Rightarrow> string list option \<Rightarrow> (string \<rightharpoonup> 'v)" where
  "transform_financial_stmt std_financials_list tag_filter_list =
     foldl (\<lambda>results financial.
              if (case tag_filter_list of None \<Rightarrow> True
                  | Some tags \<Rightarrow> data_tag_tag financial \<in> set tags)
              then results(data_tag_tag financial \<mapsto> fin_value financial)
              else results)
       Map.empty std_financials_list"

text \<open>
  The body of the loop of \<^verbatim>\<open>__read_historical_financial_statement__\<close> (lines 433 to 446)
  for the year \<open>i\<close>: the normalised statement of that year, or the exception raised.
\<close>

definition statement_year ::
  "'v external_api \<Rightarrow> string \<Rightarrow> string \<Rightarrow> string list option \<Rightarrow> int \<Rightarrow> 'v world
     \<Rightarrow> (pyexn + (string \<rightharpoonup> 'v)) \<times> 'v world" where
  "statement_year api ticker statement_name tag_filter_list i w =
     (let statement_type = ''FY'';
          satement_name = ticker @ ''-'' @ statement_name @ ''-'' @ str_int i @ ''-''
                            @ statement_type;
          cache_key = statement_cache_key ticker statement_name statement_type i;
          request = StandardizedFinancialsRequest satement_name;
          fetched =
            (if cache_read (store w) (Some cache_key) = PyNone then
               (case api (api_log w) request of
                  Returned r \<Rightarrow>
                    (Inr r, \<lparr>store = cache_write (store w) (Some cache_key) r,
                             api_log = api_log w @ [request]\<rparr>)
                | Raised e \<Rightarrow>
                    (Inl e, \<lparr>store = store w, api_log = api_log w @ [request]\<rparr>))
             else (Inr (cache_read (store w) (Some cache_key)), w))
      in case fetched of
           (Inl e, w') \<Rightarrow> (Inl e, w')
         | (Inr statement, w') \<Rightarrow>
             (case standardized_financials statement of
                Inl e \<Rightarrow> (Inl e, w')
              | Inr fs \<Rightarrow> (Inr (transform_financial_stmt fs tag_filter_list), w')))"

text \<open>The loop over \<^verbatim>\<open>range(year_from, year_to + 1)\<close>; an exception leaves the loop.\<close>

fun statement_loop ::
  "'v external_api \<Rightarrow> string \<Rightarrow> string \<Rightarrow> string list option \<Rightarrow> int list
     \<Rightarrow> (int \<rightharpoonup> (string \<rightharpoonup> 'v)) \<Rightarrow> 'v world
     \<Rightarrow> (pyexn + (int \<rightharpoonup> (string \<rightharpoonup> 'v))) \<times> 'v world" where
  "statement_loop api ticker statement_name tag_filter_list [] hist_statements w =
     (Inr hist_statements, w)"
| "statement_loop api ticker statement_name tag_filter_list (i # years) hist_statements w =
     (case statement_year api ticker statement_name tag_filter_list i w of
        (Inl e, w') \<Rightarrow> (Inl e, w')
      | (Inr normalized, w') \<Rightarrow>
          statement_loop api ticker statement_name tag_filter_list years
            (hist_statements(i \<mapsto> normalized)) w')"

text \<open>
  \<^verbatim>\<open>__read_historical_financial_statement__\<close>, lines 426 to 452: the ticker is upper-cased
  (\<^verbatim>\<open>ticker.upper()\<close>, the parameter \<open>str_upper\<close>), and the \<^verbatim>\<open>except ApiException\<close> clause around the loop turns that exception, and no
  other, into a \<open>DataError\<close>.
\<close>

definition read_historical_financial_statement ::
  "'v external_api \<Rightarrow> (string \<Rightarrow> string) \<Rightarrow> string \<Rightarrow> string \<Rightarrow> int \<Rightarrow> int
     \<Rightarrow> string list option \<Rightarrow> 'v world
     \<Rightarrow> (pyexn + (int \<rightharpoonup> (string \<rightharpoonup> 'v))) \<times> 'v world" where
  "read_historical_financial_statement api str_upper ticker statement_name year_from year_to
       tag_filter_list w =
     (case statement_loop api (str_upper ticker) statement_name tag_filter_list
             [year_from..year_to] Map.empty w of
        (Inl e, w') \<Rightarrow>
          (Inl (case e of ApiException x \<Rightarrow> DataError (Some e) | _ \<Rightarrow> e), w')
      | (Inr hist_statements, w') \<Rightarrow> (Inr hist_statements, w'))"

definition get_historical_income_stmt ::
  "'v external_api \<Rightarrow> (string \<Rightarrow> string) \<Rightarrow> string \<Rightarrow> int \<Rightarrow> int \<Rightarrow> string list option
     \<Rightarrow> 'v world \<Rightarrow> (pyexn + (int \<rightharpoonup> (string \<rightharpoonup> 'v))) \<times> 'v world" where
  "get_historical_income_stmt api str_upper ticker year_from year_to tag_filter_list w =
     read_historical_financial_statement api str_upper (str_upper ticker) ''income_statement''
       year_from year_to tag_filter_list w"

definition get_historical_balance_sheet ::
  "'v external_api \<Rightarrow> (string \<Rightarrow> string) \<Rightarrow> string \<Rightarrow> int \<Rightarrow> int \<Rightarrow> string list option
     \<Rightarrow> 'v world \<Rightarrow> (pyexn + (int \<rightharpoonup> (string \<rightharpoonup> 'v))) \<times> 'v world" where
  "get_historical_balance_sheet api str_upper ticker year_from year_to tag_filter_list w =
     read_historical_financial_statement api str_upper (str_upper ticker) ''balance_sheet_statement''
       year_from year_to tag_filter_list w"

definition get_historical_cashflow_stmt ::
  "'v external_api \<Rightarrow> (string \<Rightarrow> string) \<Rightarrow> string \<Rightarrow> int \<Rightarrow> int \<Rightarrow> string list option
     \<Rightarrow> 'v world \<Rightarrow> (pyexn + (int \<rightharpoonup> (string \<rightharpoonup> 'v))) \<times> 'v world" where
  "get_historical_cashflow_stmt api str_upper ticker year_from year_to tag_filter_list w =
     read_historical_financial_statement api str_upper (str_upper ticker) ''cash_flow_statement''
       year_from year_to tag_filter_list w"

section \<open>Company metrics\<close>

text \<open>
  \<^verbatim>\<open>__read_financial_metrics__\<close>, lines 502 to 534. \<^verbatim>\<open>intrinio_util.get_fiscal_year_period\<close>
  is not part of the sources at hand: it is a parameter that returns the pair of date
  strings or raises.
\<close>

definition read_financial_metrics ::
  "'v external_api \<Rightarrow> (int \<Rightarrow> int \<Rightarrow> pyexn + string \<times> string) \<Rightarrow> string \<Rightarrow> int \<Rightarrow> int
     \<Rightarrow> string \<Rightarrow> 'v world \<Rightarrow> (pyexn + (int \<rightharpoonup> 'v)) \<times> 'v world" where
  "read_financial_metrics api get_fiscal_year_period ticker start_year end_year tag w =
     (case get_fiscal_year_period start_year 0 of
        Inl e \<Rightarrow> (Inl e, w)
      | Inr (start_date, x) \<Rightarrow>
     (case get_fiscal_year_period end_year 0 of
        Inl e \<Rightarrow> (Inl e, w)
      | Inr (x, end_date) \<Rightarrow>
     (let frequency = ''yearly'';
          cache_key = metric_cache_key ticker start_year end_year frequency tag;
          request = HistoricalDataRequest ticker tag frequency start_date end_date;
          fetched =
            (if cache_read (store w) (Some cache_key) = PyNone then
               (case api (api_log w) request of
                  Returned r \<Rightarrow>
                    (Inr r, \<lparr>store = cache_write (store w) (Some cache_key) r,
                             api_log = api_log w @ [request]\<rparr>)
                | Raised e \<Rightarrow>
                    (Inl (case e of ApiException x \<Rightarrow> DataError (Some e)
                                  | _ \<Rightarrow> ValidationError (Some e)),
                     \<lparr>store = store w, api_log = api_log w @ [request]\<rparr>))
             else (Inr (cache_read (store w) (Some cache_key)), w))
      in case fetched of
           (Inl e, w') \<Rightarrow> (Inl e, w')
         | (Inr api_response, w') \<Rightarrow>
             (case historical_data api_response of
                Inl e \<Rightarrow> (Inl e, w')
              | Inr data \<Rightarrow>
                  if length data = 0 then (Inl (DataError None), w')
                  else (Inr (foldl (\<lambda>converted_response datapoint.
                                      converted_response(d_year (dp_date datapoint)
                                                           \<mapsto> dp_value datapoint))
                               Map.empty data), w')))))"

text \<open>\<^verbatim>\<open>__read_financial_metric__\<close>, lines 541 and 542; \<^verbatim>\<open>metrics[year]\<close> raises \<open>KeyError\<close>.\<close>

definition read_financial_metric ::
  "'v external_api \<Rightarrow> (int \<Rightarrow> int \<Rightarrow> pyexn + string \<times> string) \<Rightarrow> string \<Rightarrow> int \<Rightarrow> string
     \<Rightarrow> 'v world \<Rightarrow> (pyexn + 'v) \<times> 'v world" where
  "read_financial_metric api get_fiscal_year_period ticker yr tag w =
     (case read_financial_metrics api get_fiscal_year_period ticker yr yr tag w of
        (Inl e, w') \<Rightarrow> (Inl e, w')
      | (Inr metrics, w') \<Rightarrow>
          (case metrics yr of
             None \<Rightarrow> (Inl (KeyError yr), w')
           | Some v \<Rightarrow> (Inr v, w')))"

definition get_historical_revenue ::
  "'v external_api \<Rightarrow> (int \<Rightarrow> int \<Rightarrow> pyexn + string \<times> string) \<Rightarrow> string \<Rightarrow> int \<Rightarrow> int
     \<Rightarrow> 'v world \<Rightarrow> (pyexn + (int \<rightharpoonup> 'v)) \<times> 'v world" where
  "get_historical_revenue api get_fiscal_year_period ticker year_from year_to w =
     read_financial_metrics api get_fiscal_year_period ticker year_from year_to
       ''totalrevenue'' w"

definition get_diluted_eps ::
  "'v external_api \<Rightarrow> (int \<Rightarrow> int \<Rightarrow> pyexn + string \<times> string) \<Rightarrow> string \<Rightarrow> int
     \<Rightarrow> 'v world \<Rightarrow> (pyexn + 'v) \<times> 'v world" where
  "get_diluted_eps api get_fiscal_year_period ticker yr w =
     read_financial_metric api get_fiscal_year_period ticker yr ''adjdilutedeps'' w"

section \<open>Auxiliary definitions for the statements below\<close>

text \<open>Python's \<^verbatim>\<open>"-".join(tokens)\<close>.\<close>

fun dash_join :: "string list \<Rightarrow> string" where
  "dash_join [] = []"
| "dash_join [t] = t"
| "dash_join (t # ts) = t @ ''-'' @ dash_join ts"

text \<open>
  The key grammar in the words of the specification:
  \<^verbatim>\<open><prefix>-<category>-<ticker>-<period-or-year-range>-<tag-or-statement-name>[-<frequency>][-<year>]\<close>
  with the category one of the three category tokens.
\<close>

definition cache_key_categories :: "string list" where
  "cache_key_categories = [''statement'', ''metric'', ''closing-prices'']"

definition spec_cache_key ::
  "string \<Rightarrow> string \<Rightarrow> string \<Rightarrow> string \<Rightarrow> string option \<Rightarrow> string option \<Rightarrow> string" where
  "spec_cache_key category ticker period tag frequency yr =
     dash_join ([INTRINIO_CACHE_PREFIX, category, ticker, period, tag]
                @ (case frequency of None \<Rightarrow> [] | Some f \<Rightarrow> [f])
                @ (case yr of None \<Rightarrow> [] | Some y \<Rightarrow> [y]))"

definition conforms_to_spec_grammar :: "string \<Rightarrow> bool" where
  "conforms_to_spec_grammar key =
     (\<exists>category ticker period tag frequency yr.
        category \<in> set cache_key_categories \<and>
        key = spec_cache_key category ticker period tag frequency yr)"

text \<open>The state before anything was cached or requested.\<close>

definition empty_world :: "'v world" where
  "empty_world = \<lparr>store = Map.empty, api_log = []\<rparr>"

section \<open>Test doubles for the concrete scenarios\<close>

text \<open>
  Modelled from the spec: \<^verbatim>\<open>intrinio_util.date_to_string\<close> is not part of the sources at hand;
  the specification says that the price mapping is keyed by ISO date strings. The general
  statements below take the function as a parameter; this one serves the concrete scenarios.
\<close>

definition pad2 :: "int \<Rightarrow> string" where
  "pad2 n = (if 0 \<le> n \<and> n < 10 then CHR ''0'' # str_int n else str_int n)"

definition date_to_string :: "pydate \<Rightarrow> string" where
  "date_to_string d = str_int (d_year d) @ ''-'' @ pad2 (d_month d) @ ''-'' @ pad2 (d_day d)"

text \<open>A price service that answers every request with the same two records.\<close>

definition fake_security_api :: "int external_api" where
  "fake_security_api log request =
     Returned (StockPricesResponse
       [StockPrice (Date 2019 10 1) 100, StockPrice (Date 2019 10 2) 101])"

text \<open>
  Modelled from the spec: \<^verbatim>\<open>intrinio_util.get_fiscal_year_period\<close> is not part of the sources
  at hand; the specification approximates the fiscal year by the calendar year. It is called
  with an extension of zero days only.
\<close>

definition calendar_year_period :: "int \<Rightarrow> int \<Rightarrow> pyexn + string \<times> string" where
  "calendar_year_period yr extend_by_days =
     Inr (str_int yr @ ''-01-01'', str_int yr @ ''-12-31'')"

text \<open>A service that is down: every request raises the SDK's exception.\<close>

definition failing_api :: "int external_api" where
  "failing_api log request = Raised (ApiException ''unavailable'')"

text \<open>
  The fundamentals service of the end-to-end scenario: the income statements of AAPL for
  2018 and 2019; any other request raises.
\<close>

definition aapl_fundamentals_api :: "int external_api" where
  "aapl_fundamentals_api log request =
     (if request = StandardizedFinancialsRequest ''AAPL-income_statement-2018-FY'' then
        Returned (StandardizedFinancialsResponse
                    [Financial ''totalrevenue'' 1000, Financial ''other'' 5])
      else if request = StandardizedFinancialsRequest ''AAPL-income_statement-2019-FY'' then
        Returned (StandardizedFinancialsResponse [Financial ''totalrevenue'' 1100])
      else Raised (ApiException ''not found''))"

text \<open>A service that cannot be reached: the call fails below the SDK, with another exception.\<close>

definition disconnected_api :: "int external_api" where
  "disconnected_api log request = Raised (OtherException ''connection refused'')"

text \<open>A service whose every answer is a response with an empty record series.\<close>

definition empty_series_api :: "int external_api" where
  "empty_series_api log request =
     (case request of
        StockPricesRequest t s e \<Rightarrow> Returned (StockPricesResponse [])
      | HistoricalDataRequest t tag f s e \<Rightarrow> Returned (HistoricalDataResponse [])
      | StandardizedFinancialsRequest i \<Rightarrow> Returned (StandardizedFinancialsResponse []))"

text \<open>A metric service whose series holds the year 2017 only, whatever was asked for.\<close>

definition stale_company_api :: "int external_api" where
  "stale_company_api log request =
     Returned (HistoricalDataResponse [Datapoint (Date 2017 12 31) 42])"

section \<open>Facts about the decimal rendering\<close>

lemma digit_char_inj: "n < 10 \<Longrightarrow> m < 10 \<Longrightarrow> digit_char n = digit_char m \<Longrightarrow> n = m"
  unfolding digit_char_def
  by (simp add: char_of_eq_iff take_bit_eq_mod)

lemma digit_char_not_dash: "n < 10 \<Longrightarrow> digit_char n \<noteq> CHR ''-''"
proof
  assume n: "n < 10" and "digit_char n = CHR ''-''"
  then have "of_char (digit_char n) = (of_char (CHR ''-'') :: nat)" by simp
  with n show False
    unfolding digit_char_def by (simp add: take_bit_eq_mod)
qed

lemma digits_nonempty: "digits n \<noteq> []"
  by (subst digits.simps) simp

lemma digits_no_dash: "CHR ''-'' \<notin> set (digits n)"
proof (induction n rule: digits.induct)
  case (1 n)
  show ?case
  proof (cases "n < 10")
    case True
    then show ?thesis using digit_char_not_dash [of n] by (subst digits.simps) auto
  next
    case False
    then show ?thesis using 1 digit_char_not_dash [of "n mod 10"]
      by (subst digits.simps) auto
  qed
qed

lemma digits_inj: "digits n = digits m \<Longrightarrow> n = m"
proof (induction n arbitrary: m rule: digits.induct)
  case (1 n)
  show ?case
  proof (cases "n < 10")
    case n: True
    show ?thesis
    proof (cases "m < 10")
      case True
      with n 1(2) show ?thesis by (simp add: digits.simps digit_char_inj)
    next
      case False
      with n 1(2) digits_nonempty [of "m div 10"] show ?thesis
        by (simp add: digits.simps [of n] digits.simps [of m])
    qed
  next
    case n: False
    show ?thesis
    proof (cases "m < 10")
      case True
      with n 1(2) digits_nonempty [of "n div 10"] show ?thesis
        by (simp add: digits.simps [of n] digits.simps [of m])
    next
      case False
      with n 1(2) have eq: "digits (n div 10) = digits (m div 10)"
        and d: "digit_char (n mod 10) = digit_char (m mod 10)"
        by (simp_all add: digits.simps [of n] digits.simps [of m])
      from 1(1) [OF n eq] have "n div 10 = m div 10" .
      moreover from d have "n mod 10 = m mod 10" by (simp add: digit_char_inj)
      ultimately show ?thesis by (metis div_mult_mod_eq)
    qed
  qed
qed

lemma digits_not_dash_Cons: "digits n \<noteq> CHR ''-'' # r"
  using digits_no_dash [of n] by (cases "digits n") auto

lemma str_int_inj: "str_int i = str_int j \<Longrightarrow> i = j"
  using digits_not_dash_Cons [of "nat i"] digits_not_dash_Cons [of "nat j"]
  by (auto simp: str_int_def split: if_splits dest!: digits_inj dest: sym)

section \<open>Facts about the cache keys\<close>

lemma split_at_sep:
  "c \<notin> set xs \<Longrightarrow> c \<notin> set ys \<Longrightarrow> xs @ c # r = ys @ c # r' \<Longrightarrow> xs = ys \<and> r = r'"
proof (induction xs arbitrary: ys)
  case Nil
  then show ?case by (cases ys) auto
next
  case (Cons x xs)
  then show ?case by (cases ys) auto
qed

lemma str_int_split:
  assumes "str_int i @ CHR ''-'' # r = str_int j @ CHR ''-'' # r'"
  shows "i = j \<and> r = r'"
proof -
  consider (pp) "0 \<le> i" "0 \<le> j" | (nn) "i < 0" "j < 0"
    | (np) "i < 0" "0 \<le> j" | (pn) "0 \<le> i" "j < 0"
    by linarith
  then show ?thesis
  proof cases
    case pp
    with assms have "digits (nat i) @ CHR ''-'' # r = digits (nat j) @ CHR ''-'' # r'"
      by (simp add: str_int_def)
    from split_at_sep [OF digits_no_dash digits_no_dash this] pp show ?thesis
      by (auto dest!: digits_inj)
  next
    case nn
    with assms have "digits (nat (- i)) @ CHR ''-'' # r = digits (nat (- j)) @ CHR ''-'' # r'"
      by (simp add: str_int_def)
    from split_at_sep [OF digits_no_dash digits_no_dash this] nn show ?thesis
      by (auto dest!: digits_inj)
  next
    case np
    with assms have
      "CHR ''-'' # digits (nat (- i)) @ CHR ''-'' # r = digits (nat j) @ CHR ''-'' # r'"
      by (simp add: str_int_def)
    with digits_not_dash_Cons [of "nat j"] digits_nonempty [of "nat j"] show ?thesis
      by (cases "digits (nat j)") auto
  next
    case pn
    with assms have
      "digits (nat i) @ CHR ''-'' # r = CHR ''-'' # digits (nat (- j)) @ CHR ''-'' # r'"
      by (simp add: str_int_def)
    with digits_not_dash_Cons [of "nat i"] digits_nonempty [of "nat i"] show ?thesis
      by (cases "digits (nat i)") auto
  qed
qed

lemma metric_key_inj:
  assumes "CHR ''-'' \<notin> set t" "CHR ''-'' \<notin> set t'"
    and "metric_cache_key t y1 y2 ''yearly'' tag = metric_cache_key t' y1' y2' ''yearly'' tag'"
  shows "t = t' \<and> y1 = y1' \<and> y2 = y2' \<and> tag = tag'"
proof -
  from assms(3) have
    "t @ CHR ''-'' # (str_int y1 @ CHR ''-'' # (str_int y2 @ CHR ''-'' # (''yearly-'' @ tag)))
      = t' @ CHR ''-'' # (str_int y1' @ CHR ''-'' # (str_int y2' @ CHR ''-'' # (''yearly-'' @ tag')))"
    by (simp add: metric_cache_key_def INTRINIO_CACHE_PREFIX_def)
  from split_at_sep [OF assms(1,2) this]
  have t: "t = t'"
    and r1: "str_int y1 @ CHR ''-'' # (str_int y2 @ CHR ''-'' # (''yearly-'' @ tag)) =
             str_int y1' @ CHR ''-'' # (str_int y2' @ CHR ''-'' # (''yearly-'' @ tag'))"
    by simp_all
  from str_int_split [OF r1] have y1: "y1 = y1'"
    and r2: "str_int y2 @ CHR ''-'' # (''yearly-'' @ tag)
             = str_int y2' @ CHR ''-'' # (''yearly-'' @ tag')"
    by simp_all
  from str_int_split [OF r2] t y1 show ?thesis by simp
qed

lemma statement_key_year_inj:
  "statement_cache_key t n ty i = statement_cache_key t n ty j \<Longrightarrow> i = j"
  by (simp add: statement_cache_key_def str_int_inj)

lemma metric_statement_distinct:
  "metric_cache_key t y1 y2 f tag \<noteq> statement_cache_key t' n ty i"
  by (simp add: metric_cache_key_def statement_cache_key_def INTRINIO_CACHE_PREFIX_def)

lemma price_metric_distinct:
  assumes "CHR ''-'' \<notin> set t" "t \<noteq> ''metric''"
  shows "price_cache_key t s e \<noteq> metric_cache_key t' y1 y2 f tag"
proof
  assume "price_cache_key t s e = metric_cache_key t' y1 y2 f tag"
  then have "t @ CHR ''-'' # (s @ ''-'' @ e @ ''-closing-prices'')
     = ''metric'' @ CHR ''-'' #
         (t' @ ''-'' @ str_int y1 @ ''-'' @ str_int y2 @ ''-'' @ f @ ''-'' @ tag)"
    by (simp add: price_cache_key_def metric_cache_key_def INTRINIO_CACHE_PREFIX_def)
  from split_at_sep [OF assms(1) _ this] assms(2) show False by simp
qed

lemma split_at_sep_right:
  "c \<notin> set xs \<Longrightarrow> c \<notin> set ys \<Longrightarrow> r @ c # xs = r' @ c # ys \<Longrightarrow> r = r' \<and> xs = ys"
proof -
  assume a: "c \<notin> set xs" "c \<notin> set ys" and e: "r @ c # xs = r' @ c # ys"
  from e have "rev (r @ c # xs) = rev (r' @ c # ys)" by simp
  then have "rev xs @ c # rev r = rev ys @ c # rev r'" by simp
  from split_at_sep [OF _ _ this] a show ?thesis by simp
qed

lemma str_int_split_right:
  assumes "X @ c # CHR ''-'' # str_int i = X' @ c' # CHR ''-'' # str_int j"
    and "c \<noteq> CHR ''-''" "c' \<noteq> CHR ''-''"
  shows "X = X' \<and> c = c' \<and> i = j"
proof -
  consider (pp) "0 \<le> i" "0 \<le> j" | (nn) "i < 0" "j < 0"
    | (np) "i < 0" "0 \<le> j" | (pn) "0 \<le> i" "j < 0"
    by linarith
  then show ?thesis
  proof cases
    case pp
    with assms(1) have "(X @ [c]) @ CHR ''-'' # digits (nat i) = (X' @ [c']) @ CHR ''-'' # digits (nat j)"
      by (simp add: str_int_def)
    from split_at_sep_right [OF digits_no_dash digits_no_dash this] pp show ?thesis
      by (auto dest!: digits_inj)
  next
    case nn
    with assms(1) have "(X @ [c, CHR ''-'']) @ CHR ''-'' # digits (nat (- i))
        = (X' @ [c', CHR ''-'']) @ CHR ''-'' # digits (nat (- j))"
      by (simp add: str_int_def)
    from split_at_sep_right [OF digits_no_dash digits_no_dash this] nn show ?thesis
      by (auto dest!: digits_inj)
  next
    case np
    with assms(1) have "(X @ [c, CHR ''-'']) @ CHR ''-'' # digits (nat (- i))
        = (X' @ [c']) @ CHR ''-'' # digits (nat j)"
      by (simp add: str_int_def)
    from split_at_sep_right [OF digits_no_dash digits_no_dash this] assms(3) show ?thesis
      by auto
  next
    case pn
    with assms(1) have "(X @ [c]) @ CHR ''-'' # digits (nat i)
        = (X' @ [c', CHR ''-'']) @ CHR ''-'' # digits (nat (- j))"
      by (simp add: str_int_def)
    from split_at_sep_right [OF digits_no_dash digits_no_dash this] assms(2) show ?thesis
      by auto
  qed
qed

lemma append_fixed_width:
  "length us = length vs \<Longrightarrow> xs @ us = ys @ vs \<Longrightarrow> xs = ys \<and> us = vs"
  by simp

lemma price_key_inj_fixed_width:
  assumes "length s = length s'" "length e = length e'"
    and "price_cache_key t s e = price_cache_key t' s' e'"
  shows "t = t' \<and> s = s' \<and> e = e'"
proof -
  from assms(3) have "(t @ ''-'' @ s @ ''-'') @ e = (t' @ ''-'' @ s' @ ''-'') @ e'"
    by (simp add: price_cache_key_def INTRINIO_CACHE_PREFIX_def)
  from append_fixed_width [OF assms(2) this]
  have e: "e = e'" and "(t @ ''-'') @ (s @ ''-'') = (t' @ ''-'') @ (s' @ ''-'')"
    by simp_all
  moreover have "length (s @ ''-'') = length (s' @ ''-'')" using assms(1) by simp
  ultimately have "t @ ''-'' = t' @ ''-'' \<and> s @ ''-'' = s' @ ''-''"
    using append_fixed_width [of "s @ ''-''" "s' @ ''-''" "t @ ''-''" "t' @ ''-''"] by blast
  with e show ?thesis by simp
qed

lemma statement_key_inj_tickers:
  assumes "CHR ''-'' \<notin> set t" "CHR ''-'' \<notin> set t'"
    and "statement_cache_key t n ''FY'' i = statement_cache_key t' n' ''FY'' j"
  shows "t = t' \<and> n = n' \<and> i = j"
proof -
  from assms(3) have "t @ CHR ''-'' # (n @ ''-FY-'' @ str_int i)
      = t' @ CHR ''-'' # (n' @ ''-FY-'' @ str_int j)"
    by (simp add: statement_cache_key_def INTRINIO_CACHE_PREFIX_def)
  from split_at_sep [OF assms(1,2) this]
  have t: "t = t'"
    and "(n @ ''-F'') @ CHR ''Y'' # CHR ''-'' # str_int i
         = (n' @ ''-F'') @ CHR ''Y'' # CHR ''-'' # str_int j"
    by simp_all
  from str_int_split_right [OF this(2)] t show ?thesis by simp
qed

lemma statement_key_inj_names:
  assumes "CHR ''-'' \<notin> set n" "CHR ''-'' \<notin> set n'"
    and "statement_cache_key t n ''FY'' i = statement_cache_key t' n' ''FY'' j"
  shows "t = t' \<and> n = n' \<and> i = j"
proof -
  from assms(3) have "(t @ ''-'' @ n @ ''-F'') @ CHR ''Y'' # CHR ''-'' # str_int i
      = (t' @ ''-'' @ n' @ ''-F'') @ CHR ''Y'' # CHR ''-'' # str_int j"
    by (simp add: statement_cache_key_def INTRINIO_CACHE_PREFIX_def)
  from str_int_split_right [OF this]
  have i: "i = j" and "t @ CHR ''-'' # n = t' @ CHR ''-'' # n'" by simp_all
  from split_at_sep_right [OF assms(1,2) this(2)] i show ?thesis by simp
qed

lemma metric_key_inj_tags:
  assumes "CHR ''-'' \<notin> set tag" "CHR ''-'' \<notin> set tag'"
    and "0 \<le> y1" "0 \<le> y2" "0 \<le> y1'" "0 \<le> y2'"
    and "metric_cache_key t y1 y2 ''yearly'' tag = metric_cache_key t' y1' y2' ''yearly'' tag'"
  shows "t = t' \<and> y1 = y1' \<and> y2 = y2' \<and> tag = tag'"
proof -
  from assms(3-7) have
    "(t @ ''-'' @ digits (nat y1) @ ''-'' @ digits (nat y2) @ ''-yearly'') @ CHR ''-'' # tag
      = (t' @ ''-'' @ digits (nat y1') @ ''-'' @ digits (nat y2') @ ''-yearly'') @ CHR ''-'' # tag'"
    by (simp add: metric_cache_key_def INTRINIO_CACHE_PREFIX_def str_int_def)
  from split_at_sep_right [OF assms(1,2) this]
  have tag: "tag = tag'"
    and "(t @ ''-'' @ digits (nat y1)) @ CHR ''-'' # digits (nat y2)
       = (t' @ ''-'' @ digits (nat y1')) @ CHR ''-'' # digits (nat y2')"
    by simp_all
  from split_at_sep_right [OF digits_no_dash digits_no_dash this(2)]
  have y2: "digits (nat y2) = digits (nat y2')"
    and "t @ CHR ''-'' # digits (nat y1) = t' @ CHR ''-'' # digits (nat y1')"
    by simp_all
  from split_at_sep_right [OF digits_no_dash digits_no_dash this(2)]
  have t: "t = t'" and y1: "digits (nat y1) = digits (nat y1')" by simp_all
  from digits_inj [OF y1] digits_inj [OF y2] assms(3-6) t tag show ?thesis
    by (simp add: eq_nat_nat_iff)
qed

lemma last_digits: "last (digits n) = digit_char (n mod 10)"
  by (subst digits.simps) (simp add: digits_nonempty)

lemma str_int_nonempty: "str_int i \<noteq> []"
  by (simp add: str_int_def digits_nonempty)

lemma last_str_int: "last (str_int i) = digit_char (nat \<bar>i\<bar> mod 10)"
  by (auto simp: str_int_def last_digits digits_nonempty)

lemma digit_char_not_s: "n < 10 \<Longrightarrow> digit_char n \<noteq> CHR ''s''"
proof
  assume n: "n < 10" and "digit_char n = CHR ''s''"
  then have "of_char (digit_char n) = (of_char (CHR ''s'') :: nat)" by simp
  with n show False
    unfolding digit_char_def by (simp add: take_bit_eq_mod)
qed

lemma price_statement_never_equal:
  "price_cache_key t s e \<noteq> statement_cache_key t' n ty i"
proof
  assume "price_cache_key t s e = statement_cache_key t' n ty i"
  then have "last (price_cache_key t s e) = last (statement_cache_key t' n ty i)" by simp
  then have "CHR ''s'' = last (str_int i)"
    by (simp add: price_cache_key_def statement_cache_key_def str_int_nonempty)
  with digit_char_not_s [of "nat \<bar>i\<bar> mod 10"] show False
    by (simp add: last_str_int)
qed

lemma price_metric_distinct_tag:
  assumes "CHR ''-'' \<notin> set tag"
  shows "price_cache_key t s e \<noteq> metric_cache_key t' y1 y2 ''yearly'' tag"
proof
  assume "price_cache_key t s e = metric_cache_key t' y1 y2 ''yearly'' tag"
  then have "(t @ ''-'' @ s @ ''-'' @ e @ ''-closing'') @ CHR ''-'' # ''prices''
     = (''metric-'' @ t' @ ''-'' @ str_int y1 @ ''-'' @ str_int y2 @ ''-yearly'') @ CHR ''-'' # tag"
    by (simp add: price_cache_key_def metric_cache_key_def INTRINIO_CACHE_PREFIX_def)
  from split_at_sep_right [OF _ assms this]
  have "t @ ''-'' @ s @ ''-'' @ e @ ''-closing''
      = ''metric-'' @ t' @ ''-'' @ str_int y1 @ ''-'' @ str_int y2 @ ''-yearly''" by simp
  then have "last (t @ ''-'' @ s @ ''-'' @ e @ ''-closing'')
      = last (''metric-'' @ t' @ ''-'' @ str_int y1 @ ''-'' @ str_int y2 @ ''-yearly'')"
    by simp
  then show False by simp
qed

lemma key_shapes:
  "price_cache_key t s e = dash_join [INTRINIO_CACHE_PREFIX, t, s, e, ''closing-prices'']"
  "metric_cache_key t y1 y2 ''yearly'' tag =
     dash_join [INTRINIO_CACHE_PREFIX, ''metric'', t, str_int y1, str_int y2, ''yearly'', tag]"
  "statement_cache_key t n ''FY'' i =
     dash_join [INTRINIO_CACHE_PREFIX, ''statement'', t, n, ''FY'', str_int i]"
  by (simp_all add: price_cache_key_def metric_cache_key_def statement_cache_key_def)

lemma ascii_upper_char_idem: "ascii_upper_char (ascii_upper_char c) = ascii_upper_char c"
proof -
  have "of_char (char_of (of_char c - (32::nat)) :: char) = (of_char c - 32 :: nat)"
    if "97 \<le> (of_char c :: nat)" "(of_char c :: nat) \<le> 122"
    using that by (simp add: take_bit_eq_mod)
  then show ?thesis
    by (auto simp: ascii_upper_char_def Let_def)
qed

lemma ascii_upper_idem: "ascii_upper (ascii_upper s) = ascii_upper s"
  by (simp add: ascii_upper_def ascii_upper_char_idem)

lemma ascii_upper_BRK:
  "ascii_upper ''brk-b'' = ''BRK-B''" "ascii_upper ''brk'' = ''BRK''"
  by code_simp+

lemma ascii_upper_AAPL:
  "ascii_upper ''aapl'' = ''AAPL''" "ascii_upper ''AAPL'' = ''AAPL''"
  "ascii_upper ''MSFT'' = ''MSFT''"
  by code_simp+

section \<open>The cache store\<close>

text \<open>
  Claim C7, as stated: a write with an empty or absent key, or an empty or absent value,
  leaves the store unchanged and a later read of that key returns \<^verbatim>\<open>None\<close>. The last part
  fails when the key already holds a value: after \<^verbatim>\<open>write("k", "v")\<close> the skipped
  \<^verbatim>\<open>write("k", "")\<close> leaves \<^verbatim>\<open>"v"\<close> in place, and the read returns it.
\<close>

theorem cache_write_skipped_read_counterexample:
  "cache_write (cache_write Map.empty (Some ''k'') (PyStr ''v'')) (Some ''k'') (PyStr [])
     = cache_write Map.empty (Some ''k'') (PyStr ''v'') \<and>
   cache_read
     (cache_write (cache_write Map.empty (Some ''k'') (PyStr ''v'')) (Some ''k'') (PyStr []))
     (Some ''k'') = (PyStr ''v'' :: int pyobj) \<and>
   (PyStr ''v'' :: int pyobj) \<noteq> PyNone"
  by (simp add: cache_write_def cache_read_def)

text \<open>
  Claim C7, amended: a write with an empty or absent key, or an empty or absent value,
  is a silent no-op: the store is unchanged, so a later read of that key returns what it
  returned before the write, which is \<^verbatim>\<open>None\<close> when the key held no entry. A read of a
  key without an entry returns \<^verbatim>\<open>None\<close>; it has no other outcome than a value.
\<close>

theorem cache_write_skipped_is_noop:
  assumes "(key = Some [] \<or> key = None) \<or> (val = PyStr [] \<or> val = PyNone)"
  shows "cache_write c key val = c \<and>
         cache_read (cache_write c key val) key = cache_read c key \<and>
         (c key = None \<longrightarrow> cache_read (cache_write c key val) key = PyNone) \<and>
         (\<forall>k. c k = None \<longrightarrow> cache_read c k = PyNone)"
  using assms by (auto simp: cache_write_def cache_read_def)

theorem cache_write_skipped_is_noop_witness:
  "cache_write (Map.empty :: int cache) (Some []) (PyStr ''v'') = Map.empty \<and>
   cache_read (cache_write (Map.empty :: int cache) (Some []) (PyStr ''v'')) (Some [])
     = PyNone \<and>
   cache_write (Map.empty :: int cache) (Some ''k'') PyNone = Map.empty \<and>
   cache_read (cache_write (Map.empty :: int cache) (Some ''k'') PyNone) (Some ''k'')
     = PyNone"
  using cache_write_skipped_is_noop [of "Some []" "PyStr ''v''" "Map.empty :: int cache"]
    cache_write_skipped_is_noop [of "Some ''k''" "PyNone" "Map.empty :: int cache"]
  by simp

section \<open>Which keys the operations touch\<close>

lemma statement_snd:
  "snd (read_historical_financial_statement api up t n yf yt tf w)
     = snd (statement_loop api (up t) n tf [yf..yt] Map.empty w)"
  by (simp add: read_historical_financial_statement_def split: prod.splits sum.splits)

lemma date_strings:
  "date_to_string (Date 2019 10 1) = ''2019-10-01''"
  "date_to_string (Date 2019 10 2) = ''2019-10-02''"
  "date_to_string (Date 2019 10 4) = ''2019-10-04''"
  by code_simp+

section \<open>Determinism and collisions of the cache keys\<close>

text \<open>
  Claim C5, as stated: requests that differ in ticker, range, tag or statement name get
  distinct keys, at each site and across the three sites. The tokens are joined without
  escaping, so a dash inside two neighbouring free-text tokens moves the token boundary. The
  statement requests (A, B-C, 2018) and (A-B, C, 2018) share a key; so do the metric requests
  (A, 2018, 2019, x-2018-2019-yearly-y) and (A-2018-2019-yearly-x, 2018, 2019, y); and the
  price request for the ticker metric-A-2018-2019-yearly shares its key with the metric
  request (A, 2018, 2019) for the tag 2019-10-01-2019-10-04-closing-prices.
\<close>

theorem cache_key_collision_counterexample:
  "(''A'', ''B-C'') \<noteq> (''A-B'', ''C'') \<and>
   statement_cache_key ''A'' ''B-C'' ''FY'' 2018 = statement_cache_key ''A-B'' ''C'' ''FY'' 2018 \<and>
   (''A'', ''x-2018-2019-yearly-y'') \<noteq> (''A-2018-2019-yearly-x'', ''y'') \<and>
   metric_cache_key ''A'' 2018 2019 ''yearly'' ''x-2018-2019-yearly-y''
     = metric_cache_key ''A-2018-2019-yearly-x'' 2018 2019 ''yearly'' ''y'' \<and>
   price_cache_key ''metric-A-2018-2019-yearly'' ''2019-10-01'' ''2019-10-04''
     = metric_cache_key ''A'' 2018 2019 ''yearly'' ''2019-10-01-2019-10-04-closing-prices''"
proof -
  have y: "str_int 2018 = ''2018''" "str_int 2019 = ''2019''" by code_simp+
  show ?thesis
    by (simp add: statement_cache_key_def metric_cache_key_def price_cache_key_def y)
qed

text \<open>
  Two more collisions of the key functions, on inputs that depend on the helpers that are not
  among the sources: a negative year (should the period utility let it pass) collides with a
  ticker that ends in a dash, and date strings of different widths (should the date formatter
  produce them) collide with a ticker that contains a dash. They are why the amended claim
  speaks of non-negative years and of date strings of one width.
\<close>

lemma metric_key_collision_negative_year:
  "metric_cache_key ''A-'' 1 2 ''yearly'' tag = metric_cache_key ''A'' (- 1) 2 ''yearly'' tag"
  by (simp add: metric_cache_key_def str_int_def digits.simps)

lemma price_key_collision_uneven_dates:
  "price_cache_key ''A'' ''1-2'' ''3'' = price_cache_key ''A-1'' ''2'' ''3''"
  by (simp add: price_cache_key_def)


text \<open>
  Claim C5, amended: key construction is deterministic (equal inputs give equal keys), and
  two requests that differ in ticker, range, tag or statement name get distinct keys
  \<^item> at the price site, for every ticker, when the date strings have one fixed width (as ISO
    dates have);
  \<^item> at the metric site, when the tickers contain no dash, or when the tags contain no dash
    and the years are not negative;
  \<^item> at the statement site (requests compared by the upper-cased ticker), when the upper-cased
    tickers contain no dash, or when the statement names contain none (the three names the
    public operations pass contain none);
  \<^item> across sites: a statement key never equals a metric key or a price key, and a price key
    differs from every metric key whose tag contains no dash, and from every metric key when
    the price ticker contains no dash and is not the word \<^verbatim>\<open>metric\<close>.
\<close>

theorem cache_keys_distinct:
  "((t, s, e) = (t', s', e') \<longrightarrow> price_cache_key t s e = price_cache_key t' s' e') \<and>
   ((t, y1, y2, tag) = (t', y1', y2', tag') \<longrightarrow>
      metric_cache_key t y1 y2 ''yearly'' tag = metric_cache_key t' y1' y2' ''yearly'' tag') \<and>
   ((str_upper t, n, i) = (str_upper t', n', j) \<longrightarrow>
      statement_cache_key (str_upper t) n ''FY'' i
        = statement_cache_key (str_upper t') n' ''FY'' j) \<and>
   (length s = length s' \<and> length e = length e' \<and> (t, s, e) \<noteq> (t', s', e')
      \<longrightarrow> price_cache_key t s e \<noteq> price_cache_key t' s' e') \<and>
   (((CHR ''-'' \<notin> set t \<and> CHR ''-'' \<notin> set t') \<or>
     (CHR ''-'' \<notin> set tag \<and> CHR ''-'' \<notin> set tag' \<and> 0 \<le> y1 \<and> 0 \<le> y2 \<and> 0 \<le> y1' \<and> 0 \<le> y2'))
    \<and> (t, y1, y2, tag) \<noteq> (t', y1', y2', tag')
      \<longrightarrow> metric_cache_key t y1 y2 ''yearly'' tag \<noteq> metric_cache_key t' y1' y2' ''yearly'' tag') \<and>
   (((CHR ''-'' \<notin> set (str_upper t) \<and> CHR ''-'' \<notin> set (str_upper t')) \<or>
     (CHR ''-'' \<notin> set n \<and> CHR ''-'' \<notin> set n'))
    \<and> (str_upper t, n, i) \<noteq> (str_upper t', n', j)
      \<longrightarrow> statement_cache_key (str_upper t) n ''FY'' i
            \<noteq> statement_cache_key (str_upper t') n' ''FY'' j) \<and>
   metric_cache_key t y1 y2 ''yearly'' tag \<noteq> statement_cache_key (str_upper t') n ''FY'' i \<and>
   price_cache_key t s e \<noteq> statement_cache_key (str_upper t') n ''FY'' i \<and>
   (CHR ''-'' \<notin> set tag \<or> (CHR ''-'' \<notin> set t \<and> t \<noteq> ''metric'')
      \<longrightarrow> price_cache_key t s e \<noteq> metric_cache_key t' y1 y2 ''yearly'' tag)"
proof -
  have p: "length s = length s' \<and> length e = length e' \<and> (t, s, e) \<noteq> (t', s', e')
      \<longrightarrow> price_cache_key t s e \<noteq> price_cache_key t' s' e'"
    using price_key_inj_fixed_width [of s s' e e' t t'] by auto
  have m: "((CHR ''-'' \<notin> set t \<and> CHR ''-'' \<notin> set t') \<or>
     (CHR ''-'' \<notin> set tag \<and> CHR ''-'' \<notin> set tag' \<and> 0 \<le> y1 \<and> 0 \<le> y2 \<and> 0 \<le> y1' \<and> 0 \<le> y2'))
    \<and> (t, y1, y2, tag) \<noteq> (t', y1', y2', tag')
      \<longrightarrow> metric_cache_key t y1 y2 ''yearly'' tag \<noteq> metric_cache_key t' y1' y2' ''yearly'' tag'"
    using metric_key_inj [of t t' y1 y2 tag y1' y2' tag']
      metric_key_inj_tags [of tag tag' y1 y2 y1' y2' t t'] by auto
  have st: "((CHR ''-'' \<notin> set (str_upper t) \<and> CHR ''-'' \<notin> set (str_upper t')) \<or>
     (CHR ''-'' \<notin> set n \<and> CHR ''-'' \<notin> set n'))
    \<and> (str_upper t, n, i) \<noteq> (str_upper t', n', j)
      \<longrightarrow> statement_cache_key (str_upper t) n ''FY'' i
            \<noteq> statement_cache_key (str_upper t') n' ''FY'' j"
    using statement_key_inj_tickers [of "str_upper t" "str_upper t'" n i n' j]
      statement_key_inj_names [of n n' "str_upper t" i "str_upper t'" j] by auto
  have pm: "CHR ''-'' \<notin> set tag \<or> (CHR ''-'' \<notin> set t \<and> t \<noteq> ''metric'')
      \<longrightarrow> price_cache_key t s e \<noteq> metric_cache_key t' y1 y2 ''yearly'' tag"
    using price_metric_distinct [of t s e t' y1 y2 "''yearly''" tag]
      price_metric_distinct_tag [of tag t s e t' y1 y2] by auto
  from p m st pm show ?thesis
    using metric_statement_distinct [of t y1 y2 "''yearly''" tag "str_upper t'" n "''FY''" i]
      price_statement_never_equal [of t s e "str_upper t'" n "''FY''" i]
    by simp
qed

theorem cache_keys_distinct_witness:
  "price_cache_key ''BRK-B'' ''2019-10-01'' ''2019-10-04''
     \<noteq> price_cache_key ''BRK'' ''2019-10-01'' ''2019-10-04'' \<and>
   metric_cache_key ''BRK-B'' 2018 2019 ''yearly'' ''totalrevenue''
     \<noteq> metric_cache_key ''BRK'' 2018 2019 ''yearly'' ''freecashflow'' \<and>
   statement_cache_key (ascii_upper ''brk-b'') ''income_statement'' ''FY'' 2018
     \<noteq> statement_cache_key (ascii_upper ''brk'') ''balance_sheet_statement'' ''FY'' 2019 \<and>
   price_cache_key ''BRK-B'' ''2019-10-01'' ''2019-10-04''
     \<noteq> metric_cache_key ''BRK'' 2018 2019 ''yearly'' ''totalrevenue''"
  using cache_keys_distinct [where t = "''BRK-B''" and t' = "''BRK''"
      and s = "''2019-10-01''" and s' = "''2019-10-01''" and e = "''2019-10-04''"
      and e' = "''2019-10-04''" and ?y1.0 = 2018 and ?y2.0 = 2019 and y1' = 2018 and y2' = 2019
      and tag = "''totalrevenue''" and tag' = "''freecashflow''"
      and n = "''income_statement''" and n' = "''balance_sheet_statement''"
      and i = 2018 and j = 2019 and str_upper = ascii_upper]
    cache_keys_distinct [where t = "''brk-b''" and t' = "''brk''"
      and n = "''income_statement''" and n' = "''balance_sheet_statement''"
      and i = 2018 and j = 2019 and str_upper = ascii_upper]
  by (simp add: ascii_upper_BRK)


section \<open>Facts about the price and metric operations\<close>

lemma price_key_nonempty: "price_cache_key t s e \<noteq> []"
  by (simp add: price_cache_key_def INTRINIO_CACHE_PREFIX_def)

lemma cache_read_write_response:
  "key \<noteq> [] \<Longrightarrow> r \<noteq> PyNone \<Longrightarrow> r \<noteq> PyStr [] \<Longrightarrow>
     cache_write c (Some key) r = c(Some key \<mapsto> r)"
  by (simp add: cache_write_def)

lemma price_hit:
  assumes "cache_read (store w) (Some (price_cache_key t (dts sd) (dts ed)))
             = StockPricesResponse ps"
  shows "get_daily_stock_close_prices api dts t sd ed w =
           (if length ps = 0 then (Inl (DataError None), w)
            else (Inr (foldl (\<lambda>price_dict price.
                         price_dict(dts (price_date price) \<mapsto> price_close price))
                       Map.empty ps), w))"
  using assms by (simp add: get_daily_stock_close_prices_def Let_def stock_prices_def)

lemma price_miss_returned:
  assumes "cache_read (store w) (Some (price_cache_key t (dts sd) (dts ed))) = PyNone"
    and "api (api_log w) (StockPricesRequest t (dts sd) (dts ed))
           = Returned (StockPricesResponse ps)"
  shows "get_daily_stock_close_prices api dts t sd ed w =
           (if length ps = 0 then Inl (DataError None)
            else Inr (foldl (\<lambda>price_dict price.
                         price_dict(dts (price_date price) \<mapsto> price_close price))
                       Map.empty ps),
            \<lparr>store = (store w)(Some (price_cache_key t (dts sd) (dts ed))
                        \<mapsto> StockPricesResponse ps),
             api_log = api_log w @ [StockPricesRequest t (dts sd) (dts ed)]\<rparr>)"
  using assms
  by (simp add: get_daily_stock_close_prices_def Let_def stock_prices_def
        cache_read_write_response price_key_nonempty)

lemma fake_security_run:
  "get_daily_stock_close_prices fake_security_api date_to_string ''AAPL''
       (Date 2019 10 1) (Date 2019 10 4) empty_world
     = (Inr [''2019-10-01'' \<mapsto> 100, ''2019-10-02'' \<mapsto> 101],
        \<lparr>store = [Some (price_cache_key ''AAPL'' ''2019-10-01'' ''2019-10-04'')
                    \<mapsto> StockPricesResponse
                        [StockPrice (Date 2019 10 1) 100, StockPrice (Date 2019 10 2) 101]],
         api_log = [StockPricesRequest ''AAPL'' ''2019-10-01'' ''2019-10-04'']\<rparr>)"
proof -
  have miss: "cache_read (store (empty_world :: int world))
      (Some (price_cache_key ''AAPL'' (date_to_string (Date 2019 10 1))
         (date_to_string (Date 2019 10 4)))) = PyNone"
    by (simp add: empty_world_def cache_read_def)
  have ret: "fake_security_api (api_log (empty_world :: int world))
      (StockPricesRequest ''AAPL'' (date_to_string (Date 2019 10 1))
         (date_to_string (Date 2019 10 4)))
      = Returned (StockPricesResponse
          [StockPrice (Date 2019 10 1) 100, StockPrice (Date 2019 10 2) 101])"
    by (simp add: fake_security_api_def)
  show ?thesis
    unfolding price_miss_returned [where dts = date_to_string and sd = "Date 2019 10 1"
        and ed = "Date 2019 10 4" and t = "''AAPL''" and w = empty_world
        and api = fake_security_api, OF miss ret]
    by (simp add: date_strings empty_world_def)
qed

lemma metric_key_nonempty: "metric_cache_key t y1 y2 f tag \<noteq> []"
  by (simp add: metric_cache_key_def INTRINIO_CACHE_PREFIX_def)

lemma metric_hit:
  assumes "gfyp y1 0 = Inr (sd, x)" and "gfyp y2 0 = Inr (x', ed)"
    and "cache_read (store w) (Some (metric_cache_key t y1 y2 ''yearly'' tag))
             = HistoricalDataResponse ds"
  shows "read_financial_metrics api gfyp t y1 y2 tag w =
           (if length ds = 0 then (Inl (DataError None), w)
            else (Inr (foldl (\<lambda>converted_response datapoint.
                         converted_response(d_year (dp_date datapoint) \<mapsto> dp_value datapoint))
                       Map.empty ds), w))"
  using assms by (simp add: read_financial_metrics_def Let_def historical_data_def)

lemma metric_miss_returned:
  assumes "gfyp y1 0 = Inr (sd, x)" and "gfyp y2 0 = Inr (x', ed)"
    and "cache_read (store w) (Some (metric_cache_key t y1 y2 ''yearly'' tag)) = PyNone"
    and "api (api_log w) (HistoricalDataRequest t tag ''yearly'' sd ed)
           = Returned (HistoricalDataResponse ds)"
  shows "read_financial_metrics api gfyp t y1 y2 tag w =
           (if length ds = 0 then Inl (DataError None)
            else Inr (foldl (\<lambda>converted_response datapoint.
                         converted_response(d_year (dp_date datapoint) \<mapsto> dp_value datapoint))
                       Map.empty ds),
            \<lparr>store = (store w)(Some (metric_cache_key t y1 y2 ''yearly'' tag)
                        \<mapsto> HistoricalDataResponse ds),
             api_log = api_log w @ [HistoricalDataRequest t tag ''yearly'' sd ed]\<rparr>)"
  using assms
  by (simp add: read_financial_metrics_def Let_def historical_data_def
        cache_read_write_response metric_key_nonempty)

lemma foldl_upd_dom: "dom (foldl (\<lambda>m d. m(k d \<mapsto> v d)) m0 ds) = dom m0 \<union> k ` set ds"
  by (induction ds arbitrary: m0) auto

lemma foldl_upd_Some:
  "foldl (\<lambda>m d. m(k d \<mapsto> v d)) m0 ds x = Some y \<Longrightarrow>
     m0 x = Some y \<or> (\<exists>d\<in>set ds. k d = x \<and> v d = y)"
proof (induction ds arbitrary: m0)
  case Nil
  then show ?case by simp
next
  case (Cons d ds)
  from Cons.IH [of "m0(k d \<mapsto> v d)"] Cons.prems show ?case
    by (auto split: if_splits)
qed

lemma statement_ticker_case_insensitive:
  "str_upper ticker = str_upper ticker' \<Longrightarrow>
     read_historical_financial_statement api str_upper ticker n yf yt tf w
       = read_historical_financial_statement api str_upper ticker' n yf yt tf w"
  by (simp add: read_historical_financial_statement_def)

lemma statement_ticker_aapl:
  "read_historical_financial_statement api ascii_upper ''aapl'' n yf yt tf w
     = read_historical_financial_statement api ascii_upper ''AAPL'' n yf yt tf w"
  by (rule statement_ticker_case_insensitive) (simp add: ascii_upper_AAPL)

section \<open>Facts about the store and the statement loop\<close>

lemma statement_key_nonempty: "statement_cache_key t n ty i \<noteq> []"
  by (simp add: statement_cache_key_def INTRINIO_CACHE_PREFIX_def)

lemma price_store:
  "store (snd (get_daily_stock_close_prices api dts t sd ed w)) =
     (if cache_read (store w) (Some (price_cache_key t (dts sd) (dts ed))) = PyNone then
        (case api (api_log w) (StockPricesRequest t (dts sd) (dts ed)) of
           Returned r \<Rightarrow> cache_write (store w) (Some (price_cache_key t (dts sd) (dts ed))) r
         | Raised ex \<Rightarrow> store w)
      else store w)"
  by (simp add: get_daily_stock_close_prices_def Let_def
        split: api_result.splits sum.splits prod.splits)

lemma metric_store:
  assumes "gfyp y1 0 = Inr (s1, x)" and "gfyp y2 0 = Inr (x', e2)"
  shows "store (snd (read_financial_metrics api gfyp t y1 y2 tag w)) =
     (if cache_read (store w) (Some (metric_cache_key t y1 y2 ''yearly'' tag)) = PyNone then
        (case api (api_log w) (HistoricalDataRequest t tag ''yearly'' s1 e2) of
           Returned r \<Rightarrow> cache_write (store w) (Some (metric_cache_key t y1 y2 ''yearly'' tag)) r
         | Raised ex \<Rightarrow> store w)
      else store w)"
  using assms
  by (simp add: read_financial_metrics_def Let_def
        split: api_result.splits sum.splits prod.splits)

lemma statement_year_store:
  "store (snd (statement_year api u n tf i w)) =
     (if cache_read (store w) (Some (statement_cache_key u n ''FY'' i)) = PyNone then
        (case api (api_log w)
                (StandardizedFinancialsRequest (u @ ''-'' @ n @ ''-'' @ str_int i @ ''-'' @ ''FY'')) of
           Returned r \<Rightarrow> cache_write (store w) (Some (statement_cache_key u n ''FY'' i)) r
         | Raised ex \<Rightarrow> store w)
      else store w)"
  by (simp add: statement_year_def Let_def
        split: api_result.splits sum.splits prod.splits)

lemma cache_write_frame: "k \<noteq> key \<Longrightarrow> cache_write c key r k = c k"
  by (simp add: cache_write_def)

lemma price_frame:
  "k \<noteq> Some (price_cache_key t (dts sd) (dts ed)) \<Longrightarrow>
     store (snd (get_daily_stock_close_prices api dts t sd ed w)) k = store w k"
  by (simp add: price_store cache_write_frame split: api_result.splits)

lemma metric_frame:
  "k \<noteq> Some (metric_cache_key t y1 y2 ''yearly'' tag) \<Longrightarrow>
     store (snd (read_financial_metrics api gfyp t y1 y2 tag w)) k = store w k"
  by (auto simp: read_financial_metrics_def Let_def cache_write_frame
        split: api_result.splits sum.splits prod.splits)

lemma statement_year_frame:
  "k \<noteq> Some (statement_cache_key u n ''FY'' i) \<Longrightarrow>
     store (snd (statement_year api u n tf i w)) k = store w k"
  by (simp add: statement_year_store cache_write_frame split: api_result.splits)

lemma statement_loop_frame:
  "k \<notin> (\<lambda>i. Some (statement_cache_key u n ''FY'' i)) ` set ys \<Longrightarrow>
     store (snd (statement_loop api u n tf ys h w)) k = store w k"
proof (induction ys arbitrary: h w)
  case Nil
  then show ?case by simp
next
  case (Cons i ys)
  obtain r w' where sy: "statement_year api u n tf i w = (r, w')"
    by (cases "statement_year api u n tf i w")
  from Cons.prems have ki: "k \<noteq> Some (statement_cache_key u n ''FY'' i)"
    and kys: "k \<notin> (\<lambda>i. Some (statement_cache_key u n ''FY'' i)) ` set ys" by auto
  from statement_year_frame [OF ki, of api tf w] sy have f: "store w' k = store w k" by simp
  show ?case
  proof (cases r)
    case (Inl e)
    with sy f show ?thesis by simp
  next
    case (Inr nm)
    with sy have "store (snd (statement_loop api u n tf (i # ys) h w)) k
        = store (snd (statement_loop api u n tf ys (h(i \<mapsto> nm)) w')) k" by simp
    also have "\<dots> = store w' k" by (rule Cons.IH [OF kys])
    also note f
    finally show ?thesis .
  qed
qed

lemma statement_year_ok:
  assumes "statement_year api u n tf i w = (Inr nm, w')"
  shows "\<exists>fs. store w' (Some (statement_cache_key u n ''FY'' i))
                = Some (StandardizedFinancialsResponse fs) \<and>
              nm = transform_financial_stmt fs tf"
proof (cases "cache_read (store w) (Some (statement_cache_key u n ''FY'' i)) = PyNone")
  case True
  with assms obtain r where r: "api (api_log w)
      (StandardizedFinancialsRequest (u @ ''-'' @ n @ ''-'' @ str_int i @ ''-'' @ ''FY'')) = Returned r"
    by (cases "api (api_log w)
      (StandardizedFinancialsRequest (u @ ''-'' @ n @ ''-'' @ str_int i @ ''-'' @ ''FY''))")
       (auto simp: statement_year_def Let_def)
  with assms True obtain fs where fs: "r = StandardizedFinancialsResponse fs"
    by (cases r) (auto simp: statement_year_def Let_def standardized_financials_def)
  from assms True r fs show ?thesis
    by (auto simp: statement_year_def Let_def standardized_financials_def
          cache_read_write_response statement_key_nonempty)
next
  case False
  with assms obtain fs where fs: "cache_read (store w) (Some (statement_cache_key u n ''FY'' i))
      = StandardizedFinancialsResponse fs"
    by (cases "cache_read (store w) (Some (statement_cache_key u n ''FY'' i))")
       (auto simp: statement_year_def Let_def standardized_financials_def)
  then have "store w (Some (statement_cache_key u n ''FY'' i))
      = Some (StandardizedFinancialsResponse fs)"
    by (auto simp: cache_read_def split: option.splits)
  with assms fs show ?thesis
    by (auto simp: statement_year_def Let_def standardized_financials_def)
qed

lemma statement_loop_ok:
  assumes "statement_loop api u n tf ys h w = (Inr hist, w')"
  shows "(\<forall>y. y \<notin> set ys \<longrightarrow> hist y = h y) \<and>
         (\<forall>y\<in>set ys. \<exists>fs. store w' (Some (statement_cache_key u n ''FY'' y))
                               = Some (StandardizedFinancialsResponse fs) \<and>
                            hist y = Some (transform_financial_stmt fs tf))"
  using assms
proof (induction ys arbitrary: h w)
  case Nil
  then show ?case by simp
next
  case (Cons i ys)
  obtain r w1 where sy: "statement_year api u n tf i w = (r, w1)"
    by (cases "statement_year api u n tf i w")
  with Cons.prems obtain nm where r: "r = Inr nm" by (cases r) auto
  with sy Cons.prems have rest:
    "statement_loop api u n tf ys (h(i \<mapsto> nm)) w1 = (Inr hist, w')" by simp
  note IH = Cons.IH [OF rest]
  from statement_year_ok [OF sy [unfolded r]] obtain fs
    where fs: "store w1 (Some (statement_cache_key u n ''FY'' i))
                 = Some (StandardizedFinancialsResponse fs)"
      and nm: "nm = transform_financial_stmt fs tf" by blast
  have here: "\<exists>fs. store w' (Some (statement_cache_key u n ''FY'' i))
                               = Some (StandardizedFinancialsResponse fs) \<and>
                            hist i = Some (transform_financial_stmt fs tf)"
  proof (cases "i \<in> set ys")
    case True
    with IH show ?thesis by blast
  next
    case False
    then have "Some (statement_cache_key u n ''FY'' i)
        \<notin> (\<lambda>i. Some (statement_cache_key u n ''FY'' i)) ` set ys"
      by (auto dest: statement_key_year_inj)
    from statement_loop_frame [OF this, of api tf "h(i \<mapsto> nm)" w1] rest
    have "store w' (Some (statement_cache_key u n ''FY'' i))
        = store w1 (Some (statement_cache_key u n ''FY'' i))" by simp
    moreover from IH False have "hist i = Some nm" by simp
    ultimately show ?thesis using fs nm by simp
  qed
  from IH here show ?case by auto
qed

lemma statement_loop_append:
  "statement_loop api u n tf (ys1 @ ys2) h w =
     (case statement_loop api u n tf ys1 h w of
        (Inl e, w') \<Rightarrow> (Inl e, w')
      | (Inr h', w') \<Rightarrow> statement_loop api u n tf ys2 h' w')"
  by (induction ys1 arbitrary: h w) (auto split: prod.splits sum.splits)

lemma statement_year_raises:
  assumes "cache_read (store w) (Some (statement_cache_key u n ''FY'' i)) = PyNone"
    and "api (api_log w)
           (StandardizedFinancialsRequest (u @ ''-'' @ n @ ''-'' @ str_int i @ ''-'' @ ''FY''))
           = Raised ex"
  shows "statement_year api u n tf i w =
           (Inl ex, \<lparr>store = store w,
                     api_log = api_log w @ [StandardizedFinancialsRequest
                       (u @ ''-'' @ n @ ''-'' @ str_int i @ ''-'' @ ''FY'')]\<rparr>)"
  using assms by (simp add: statement_year_def Let_def)

lemma statement_year_available:
  assumes "cache_read (store w) (Some (statement_cache_key u n ''FY'' i)) = PyNone \<and>
           api (api_log w)
             (StandardizedFinancialsRequest (u @ ''-'' @ n @ ''-'' @ str_int i @ ''-'' @ ''FY''))
             = Returned (StandardizedFinancialsResponse fs) \<or>
           cache_read (store w) (Some (statement_cache_key u n ''FY'' i))
             = StandardizedFinancialsResponse fs"
  shows "fst (statement_year api u n tf i w) = Inr (transform_financial_stmt fs tf)"
  using assms
  by (auto simp: statement_year_def Let_def standardized_financials_def)

lemma price_miss_raised:
  assumes "cache_read (store w) (Some (price_cache_key t (dts sd) (dts ed))) = PyNone"
    and "api (api_log w) (StockPricesRequest t (dts sd) (dts ed)) = Raised ex"
  shows "get_daily_stock_close_prices api dts t sd ed w =
           (Inl (case ex of ApiException x \<Rightarrow> DataError (Some ex)
                          | _ \<Rightarrow> ValidationError (Some ex)),
            \<lparr>store = store w,
             api_log = api_log w @ [StockPricesRequest t (dts sd) (dts ed)]\<rparr>)"
  using assms by (simp add: get_daily_stock_close_prices_def Let_def)

lemma failing_run:
  "get_daily_stock_close_prices failing_api date_to_string ''AAPL''
       (Date 2019 10 1) (Date 2019 10 4) \<lparr>store = Map.empty, api_log = l\<rparr>
     = (Inl (DataError (Some (ApiException ''unavailable''))),
        \<lparr>store = Map.empty,
         api_log = l @ [StockPricesRequest ''AAPL'' ''2019-10-01'' ''2019-10-04'']\<rparr>)"
proof -
  have miss: "cache_read (store \<lparr>store = (Map.empty :: int cache), api_log = l\<rparr>)
      (Some (price_cache_key ''AAPL'' (date_to_string (Date 2019 10 1))
         (date_to_string (Date 2019 10 4)))) = PyNone"
    by (simp add: cache_read_def)
  have ret: "failing_api (api_log \<lparr>store = (Map.empty :: int cache), api_log = l\<rparr>)
      (StockPricesRequest ''AAPL'' (date_to_string (Date 2019 10 1))
         (date_to_string (Date 2019 10 4))) = Raised (ApiException ''unavailable'')"
    by (simp add: failing_api_def)
  show ?thesis
    unfolding price_miss_raised [where dts = date_to_string and sd = "Date 2019 10 1"
        and ed = "Date 2019 10 4" and t = "''AAPL''"
        and api = failing_api, OF miss ret]
    by (simp add: date_strings)
qed

section \<open>The shape of the cache keys\<close>

text \<open>
  Claim C2, as stated: every key the provider builds has the form
  \<^verbatim>\<open><prefix>-<category>-<ticker>-...\<close> with the category token right after the prefix.
  The key of the daily prices of AAPL does not: the ticker follows the prefix, and
  \<^verbatim>\<open>closing-prices\<close> comes last.
\<close>

theorem cache_key_grammar_counterexample:
  "\<not> conforms_to_spec_grammar (price_cache_key ''AAPL'' ''2019-10-01'' ''2019-10-04'')"
  by (auto simp: conforms_to_spec_grammar_def spec_cache_key_def cache_key_categories_def
        price_cache_key_def INTRINIO_CACHE_PREFIX_def)

text \<open>
  Claim C2, amended: every key is a dash-joined token string that starts with the fixed
  prefix \<^verbatim>\<open>intrinio\<close>. A price key is prefix, ticker, start date, end date and the category
  token \<^verbatim>\<open>closing-prices\<close> last; a metric key is prefix, \<^verbatim>\<open>metric\<close>, ticker, start year, end
  year, the frequency \<^verbatim>\<open>yearly\<close> and the tag; a statement key is prefix, \<^verbatim>\<open>statement\<close>, the
  upper-cased ticker \<open>u\<close>, the statement name, \<^verbatim>\<open>FY\<close> and the year. Each operation stores
  entries under the keys of this shape built from its own arguments and under no others:
  the price operation, the metric operation and each round of the statement loop leave the
  store as it was, except that on a cache miss answered by the service the answer is
  written under that key; the statement operation changes no entry outside the keys of its
  years, and when it returns, every year of the range has its statement under its key.
\<close>

theorem cache_keys_of_operations:
  "INTRINIO_CACHE_PREFIX = ''intrinio'' \<and>
   price_cache_key t s e = dash_join [INTRINIO_CACHE_PREFIX, t, s, e, ''closing-prices''] \<and>
   metric_cache_key t y1 y2 ''yearly'' tag =
     dash_join [INTRINIO_CACHE_PREFIX, ''metric'', t, str_int y1, str_int y2, ''yearly'', tag] \<and>
   statement_cache_key u n ''FY'' i =
     dash_join [INTRINIO_CACHE_PREFIX, ''statement'', u, n, ''FY'', str_int i] \<and>
   store (snd (get_daily_stock_close_prices api dts t sd ed w)) =
     (if cache_read (store w) (Some (price_cache_key t (dts sd) (dts ed))) = PyNone then
        (case api (api_log w) (StockPricesRequest t (dts sd) (dts ed)) of
           Returned r \<Rightarrow> cache_write (store w) (Some (price_cache_key t (dts sd) (dts ed))) r
         | Raised ex \<Rightarrow> store w)
      else store w) \<and>
   (gfyp y1 0 = Inr (s1, x) \<and> gfyp y2 0 = Inr (x', e2) \<longrightarrow>
      store (snd (read_financial_metrics api gfyp t y1 y2 tag w)) =
        (if cache_read (store w) (Some (metric_cache_key t y1 y2 ''yearly'' tag)) = PyNone then
           (case api (api_log w) (HistoricalDataRequest t tag ''yearly'' s1 e2) of
              Returned r \<Rightarrow>
                cache_write (store w) (Some (metric_cache_key t y1 y2 ''yearly'' tag)) r
            | Raised ex \<Rightarrow> store w)
         else store w)) \<and>
   (\<forall>k. k \<noteq> Some (metric_cache_key t y1 y2 ''yearly'' tag) \<longrightarrow>
      store (snd (read_financial_metrics api gfyp t y1 y2 tag w)) k = store w k) \<and>
   store (snd (statement_year api u n tf i w)) =
     (if cache_read (store w) (Some (statement_cache_key u n ''FY'' i)) = PyNone then
        (case api (api_log w)
                (StandardizedFinancialsRequest
                   (u @ ''-'' @ n @ ''-'' @ str_int i @ ''-'' @ ''FY'')) of
           Returned r \<Rightarrow> cache_write (store w) (Some (statement_cache_key u n ''FY'' i)) r
         | Raised ex \<Rightarrow> store w)
      else store w) \<and>
   (\<forall>k. k \<notin> (\<lambda>i. Some (statement_cache_key (str_upper t) n ''FY'' i)) ` {yf..yt} \<longrightarrow>
      store (snd (read_historical_financial_statement api str_upper t n yf yt tf w)) k
        = store w k) \<and>
   (\<forall>hist w'.
      read_historical_financial_statement api str_upper t n yf yt tf w = (Inr hist, w') \<longrightarrow>
      (\<forall>y\<in>{yf..yt}. \<exists>fs. store w' (Some (statement_cache_key (str_upper t) n ''FY'' y))
                            = Some (StandardizedFinancialsResponse fs)))"
proof -
  have frame: "\<forall>k. k \<notin> (\<lambda>i. Some (statement_cache_key (str_upper t) n ''FY'' i)) ` {yf..yt} \<longrightarrow>
      store (snd (read_historical_financial_statement api str_upper t n yf yt tf w)) k
        = store w k"
    using statement_loop_frame [of _ "str_upper t" n "[yf..yt]" api tf Map.empty w]
    by (simp add: statement_snd)
  have written: "\<forall>hist w'.
      read_historical_financial_statement api str_upper t n yf yt tf w = (Inr hist, w') \<longrightarrow>
      (\<forall>y\<in>{yf..yt}. \<exists>fs. store w' (Some (statement_cache_key (str_upper t) n ''FY'' y))
                            = Some (StandardizedFinancialsResponse fs))"
  proof (intro allI impI)
    fix hist w'
    assume "read_historical_financial_statement api str_upper t n yf yt tf w = (Inr hist, w')"
    then have "statement_loop api (str_upper t) n tf [yf..yt] Map.empty w = (Inr hist, w')"
      by (auto simp: read_historical_financial_statement_def split: prod.splits sum.splits)
    from statement_loop_ok [OF this]
    show "\<forall>y\<in>{yf..yt}. \<exists>fs. store w' (Some (statement_cache_key (str_upper t) n ''FY'' y))
                            = Some (StandardizedFinancialsResponse fs)"
      by auto
  qed
  have metric: "gfyp y1 0 = Inr (s1, x) \<and> gfyp y2 0 = Inr (x', e2) \<longrightarrow>
      store (snd (read_financial_metrics api gfyp t y1 y2 tag w)) =
        (if cache_read (store w) (Some (metric_cache_key t y1 y2 ''yearly'' tag)) = PyNone then
           (case api (api_log w) (HistoricalDataRequest t tag ''yearly'' s1 e2) of
              Returned r \<Rightarrow>
                cache_write (store w) (Some (metric_cache_key t y1 y2 ''yearly'' tag)) r
            | Raised ex \<Rightarrow> store w)
         else store w)"
    using metric_store [of gfyp y1 s1 x y2 x' e2 api t tag w] by blast
  have mframe: "\<forall>k. k \<noteq> Some (metric_cache_key t y1 y2 ''yearly'' tag) \<longrightarrow>
      store (snd (read_financial_metrics api gfyp t y1 y2 tag w)) k = store w k"
    using metric_frame [of _ t y1 y2 tag api gfyp w] by blast
  from frame written metric mframe show ?thesis
    using price_store [of api dts t sd ed w] statement_year_store [of api u n tf i w]
    by (simp only: key_shapes INTRINIO_CACHE_PREFIX_def simp_thms)
qed


theorem cache_keys_of_operations_witness:
  "store (snd (get_daily_stock_close_prices fake_security_api date_to_string ''AAPL''
          (Date 2019 10 1) (Date 2019 10 4) empty_world))
     = [Some (price_cache_key ''AAPL'' ''2019-10-01'' ''2019-10-04'')
          \<mapsto> StockPricesResponse
              [StockPrice (Date 2019 10 1) 100, StockPrice (Date 2019 10 2) 101]] \<and>
   store (snd (read_financial_metrics stale_company_api calendar_year_period ''AAPL''
          2018 2018 ''adjdilutedeps'' empty_world)) (Some ''other'') = None \<and>
   store (snd (read_historical_financial_statement aapl_fundamentals_api ascii_upper ''aapl''
          ''income_statement'' 2018 2019 (Some [''totalrevenue'']) empty_world))
     (Some ''other'') = None"
proof -
  note price = cache_keys_of_operations [where w = "empty_world :: int world"
      and api = fake_security_api and dts = date_to_string and t = "''AAPL''"
      and sd = "Date 2019 10 1" and ed = "Date 2019 10 4",
      THEN conjunct2, THEN conjunct2, THEN conjunct2, THEN conjunct2, THEN conjunct1]
  note metric = cache_keys_of_operations [where w = "empty_world :: int world"
      and api = stale_company_api and gfyp = calendar_year_period and t = "''AAPL''"
      and ?y1.0 = 2018 and ?y2.0 = 2018 and tag = "''adjdilutedeps''",
      THEN conjunct2, THEN conjunct2, THEN conjunct2, THEN conjunct2, THEN conjunct2,
      THEN conjunct2, THEN conjunct1, rule_format, of "Some ''other''"]
  note statement = cache_keys_of_operations [where w = "empty_world :: int world"
      and api = aapl_fundamentals_api and str_upper = ascii_upper and t = "''aapl''"
      and n = "''income_statement''" and yf = 2018 and yt = 2019
      and tf = "Some [''totalrevenue'']",
      THEN conjunct2, THEN conjunct2, THEN conjunct2, THEN conjunct2, THEN conjunct2,
      THEN conjunct2, THEN conjunct2, THEN conjunct2, THEN conjunct1, rule_format,
      of "Some ''other''"]
  have p: "store (snd (get_daily_stock_close_prices fake_security_api date_to_string ''AAPL''
          (Date 2019 10 1) (Date 2019 10 4) empty_world))
     = [Some (price_cache_key ''AAPL'' ''2019-10-01'' ''2019-10-04'')
          \<mapsto> StockPricesResponse
              [StockPrice (Date 2019 10 1) 100, StockPrice (Date 2019 10 2) 101]]"
    unfolding price
    by (simp add: empty_world_def cache_read_def cache_write_def fake_security_api_def
          date_strings price_key_nonempty)
  have m: "store (snd (read_financial_metrics stale_company_api calendar_year_period ''AAPL''
          2018 2018 ''adjdilutedeps'' empty_world)) (Some ''other'') = None"
    using metric by (simp add: metric_cache_key_def INTRINIO_CACHE_PREFIX_def empty_world_def)
  have st: "store (snd (read_historical_financial_statement aapl_fundamentals_api ascii_upper
          ''aapl'' ''income_statement'' 2018 2019 (Some [''totalrevenue'']) empty_world))
     (Some ''other'') = None"
    using statement
    by (simp add: statement_cache_key_def INTRINIO_CACHE_PREFIX_def empty_world_def image_iff)
  from p m st show ?thesis by simp
qed


section \<open>Daily prices are fetched once\<close>

text \<open>
  Claim C1, as stated: for every ticker and date range, two calls with identical arguments
  issue at most one external call. Against a service that raises, nothing is cached, and the
  second call sends the same request again: two calls, two requests.
\<close>

theorem daily_prices_failing_service_counterexample:
  "api_log (snd (get_daily_stock_close_prices failing_api date_to_string ''AAPL''
       (Date 2019 10 1) (Date 2019 10 4)
       (snd (get_daily_stock_close_prices failing_api date_to_string ''AAPL''
         (Date 2019 10 1) (Date 2019 10 4) empty_world))))
   = [StockPricesRequest ''AAPL'' ''2019-10-01'' ''2019-10-04'',
      StockPricesRequest ''AAPL'' ''2019-10-01'' ''2019-10-04''] \<and>
   \<not> length [StockPricesRequest ''AAPL'' ''2019-10-01'' ''2019-10-04'',
             StockPricesRequest ''AAPL'' ''2019-10-01'' ''2019-10-04''] \<le> 1"
  by (simp add: empty_world_def failing_run)

text \<open>
  Claim C1, amended: when the price service answers the request of the first call with a
  price response, two calls with identical arguments issue exactly one external call. On a
  cache miss the first call sends one request, writes the raw response under the key built
  from its arguments and returns the mapping of date strings to prices built from the records
  (\<open>DataError\<close> when there are none); the second call, and any later one, reads that entry
  and returns the same result without a request, whatever the service would answer by then.
  With the entry already cached no call sends a request. When the service raises instead,
  the call raises (\<open>DataError\<close> for the SDK's exception, \<open>ValidationError\<close> for any other),
  sends its one request and caches nothing.
\<close>

theorem daily_prices_fetched_once:
  "(cache_read (store w) (Some (price_cache_key ticker (dts start_date) (dts end_date)))
      = PyNone \<and>
    api (api_log w) (StockPricesRequest ticker (dts start_date) (dts end_date))
      = Returned (StockPricesResponse ps)
    \<longrightarrow> (\<exists>w1.
          get_daily_stock_close_prices api dts ticker start_date end_date w =
            (if ps = [] then Inl (DataError None)
             else Inr (foldl (\<lambda>price_dict price.
                          price_dict(dts (price_date price) \<mapsto> price_close price))
                        Map.empty ps), w1) \<and>
          store w1 = (store w)(Some (price_cache_key ticker (dts start_date) (dts end_date))
                                 \<mapsto> StockPricesResponse ps) \<and>
          api_log w1 = api_log w
            @ [StockPricesRequest ticker (dts start_date) (dts end_date)] \<and>
          (\<forall>api'. get_daily_stock_close_prices api' dts ticker start_date end_date w1 =
            (if ps = [] then Inl (DataError None)
             else Inr (foldl (\<lambda>price_dict price.
                          price_dict(dts (price_date price) \<mapsto> price_close price))
                        Map.empty ps), w1)))) \<and>
   (cache_read (store w) (Some (price_cache_key ticker (dts start_date) (dts end_date)))
      = StockPricesResponse ps
    \<longrightarrow> (\<forall>api'. get_daily_stock_close_prices api' dts ticker start_date end_date w =
            (if ps = [] then Inl (DataError None)
             else Inr (foldl (\<lambda>price_dict price.
                          price_dict(dts (price_date price) \<mapsto> price_close price))
                        Map.empty ps), w))) \<and>
   (cache_read (store w) (Some (price_cache_key ticker (dts start_date) (dts end_date)))
      = PyNone \<and>
    api (api_log w) (StockPricesRequest ticker (dts start_date) (dts end_date)) = Raised ex
    \<longrightarrow> get_daily_stock_close_prices api dts ticker start_date end_date w =
          (Inl (case ex of ApiException x \<Rightarrow> DataError (Some ex)
                         | _ \<Rightarrow> ValidationError (Some ex)),
           \<lparr>store = store w,
            api_log = api_log w
              @ [StockPricesRequest ticker (dts start_date) (dts end_date)]\<rparr>))"
proof (intro conjI impI)
  let ?K = "Some (price_cache_key ticker (dts start_date) (dts end_date))"
  let ?req = "StockPricesRequest ticker (dts start_date) (dts end_date)"
  let ?res = "if ps = [] then Inl (DataError None)
             else Inr (foldl (\<lambda>price_dict price.
                          price_dict(dts (price_date price) \<mapsto> price_close price))
                        Map.empty ps)"
  {
    assume a: "cache_read (store w) ?K = PyNone \<and> api (api_log w) ?req
                 = Returned (StockPricesResponse ps)"
    let ?w1 = "\<lparr>store = (store w)(?K \<mapsto> StockPricesResponse ps),
                api_log = api_log w @ [?req]\<rparr>"
    from a have first: "get_daily_stock_close_prices api dts ticker start_date end_date w
        = (?res, ?w1)"
      using price_miss_returned [where dts = dts and sd = start_date and ed = end_date
          and t = ticker and w = w and api = api and ps = ps] by simp
    have "cache_read (store ?w1) ?K = StockPricesResponse ps"
      by (simp add: cache_read_def)
    then have later: "get_daily_stock_close_prices api' dts ticker start_date end_date ?w1
        = (?res, ?w1)" for api'
      using price_hit [where dts = dts and sd = start_date and ed = end_date
          and t = ticker and w = ?w1 and api = api' and ps = ps] by simp
    from first later
    show "\<exists>w1. get_daily_stock_close_prices api dts ticker start_date end_date w = (?res, w1) \<and>
          store w1 = (store w)(?K \<mapsto> StockPricesResponse ps) \<and>
          api_log w1 = api_log w @ [?req] \<and>
          (\<forall>api'. get_daily_stock_close_prices api' dts ticker start_date end_date w1
                     = (?res, w1))"
      by (intro exI [of _ ?w1]) simp
  }
  {
    assume "cache_read (store w) ?K = StockPricesResponse ps"
    then show "\<forall>api'. get_daily_stock_close_prices api' dts ticker start_date end_date w
        = (?res, w)"
      using price_hit [where dts = dts and sd = start_date and ed = end_date
          and t = ticker and w = w and ps = ps] by simp
  }
  {
    assume "cache_read (store w) ?K = PyNone \<and> api (api_log w) ?req = Raised ex"
    then show "get_daily_stock_close_prices api dts ticker start_date end_date w =
          (Inl (case ex of ApiException x \<Rightarrow> DataError (Some ex)
                         | _ \<Rightarrow> ValidationError (Some ex)),
           \<lparr>store = store w, api_log = api_log w @ [?req]\<rparr>)"
      using price_miss_raised [where dts = dts and sd = start_date and ed = end_date
          and t = ticker and w = w and api = api and ex = ex] by simp
  }
qed

theorem daily_prices_fetched_once_witness:
  "\<exists>w1. get_daily_stock_close_prices fake_security_api date_to_string ''AAPL''
          (Date 2019 10 1) (Date 2019 10 4) empty_world
          = (Inr [''2019-10-01'' \<mapsto> 100, ''2019-10-02'' \<mapsto> 101], w1) \<and>
        store w1 = [Some (price_cache_key ''AAPL'' ''2019-10-01'' ''2019-10-04'')
                      \<mapsto> StockPricesResponse
                          [StockPrice (Date 2019 10 1) 100, StockPrice (Date 2019 10 2) 101]] \<and>
        api_log w1 = [StockPricesRequest ''AAPL'' ''2019-10-01'' ''2019-10-04''] \<and>
        get_daily_stock_close_prices failing_api date_to_string ''AAPL''
          (Date 2019 10 1) (Date 2019 10 4) w1
          = (Inr [''2019-10-01'' \<mapsto> 100, ''2019-10-02'' \<mapsto> 101], w1)"
  using daily_prices_fetched_once [where w = "empty_world :: int world"
      and api = fake_security_api and dts = date_to_string and ticker = "''AAPL''"
      and start_date = "Date 2019 10 1" and end_date = "Date 2019 10 4"
      and ps = "[StockPrice (Date 2019 10 1) 100, StockPrice (Date 2019 10 2) 101]"]
  by (auto simp: empty_world_def cache_read_def fake_security_api_def date_strings)


section \<open>Facts for the scenarios of the statement and metric operations\<close>

lemma years_2018_2019: "[2018..2019] = [2018, 2019 :: int]"
  by (simp add: upto.simps)

lemma years_2018_2020: "[2018..2020] = [2018, 2019, 2020 :: int]"
  by (simp add: upto.simps)

lemma str_years: "str_int 2018 = ''2018''" "str_int 2019 = ''2019''" "str_int 2020 = ''2020''"
  by code_simp+

lemma aapl_run:
  "read_historical_financial_statement aapl_fundamentals_api ascii_upper ''AAPL''
       ''income_statement'' 2018 2019 (Some [''totalrevenue'']) empty_world
     = (Inr [2018 \<mapsto> [''totalrevenue'' \<mapsto> 1000], 2019 \<mapsto> [''totalrevenue'' \<mapsto> 1100]],
        \<lparr>store = [Some (statement_cache_key ''AAPL'' ''income_statement'' ''FY'' 2018)
                    \<mapsto> StandardizedFinancialsResponse
                        [Financial ''totalrevenue'' 1000, Financial ''other'' 5],
                  Some (statement_cache_key ''AAPL'' ''income_statement'' ''FY'' 2019)
                    \<mapsto> StandardizedFinancialsResponse [Financial ''totalrevenue'' 1100]],
         api_log = [StandardizedFinancialsRequest ''AAPL-income_statement-2018-FY'',
                    StandardizedFinancialsRequest ''AAPL-income_statement-2019-FY'']\<rparr>)"
proof -
  have k: "statement_cache_key ''AAPL'' ''income_statement'' ''FY'' 2019
      \<noteq> statement_cache_key ''AAPL'' ''income_statement'' ''FY'' 2018"
    by (auto dest: statement_key_year_inj)
  show ?thesis
    using k
    by (simp add: read_historical_financial_statement_def years_2018_2019 ascii_upper_AAPL
          statement_year_def Let_def str_years empty_world_def cache_read_def
          cache_read_write_response statement_key_nonempty aapl_fundamentals_api_def
          standardized_financials_def transform_financial_stmt_def)
qed


lemma metric_available:
  assumes "gfyp yr 0 = Inr (sd, ed)"
    and "cache_read (store w) (Some (metric_cache_key ticker yr yr ''yearly'' tag)) = PyNone \<and>
         api (api_log w) (HistoricalDataRequest ticker tag ''yearly'' sd ed)
           = Returned (HistoricalDataResponse ds) \<or>
         cache_read (store w) (Some (metric_cache_key ticker yr yr ''yearly'' tag))
           = HistoricalDataResponse ds"
  shows "fst (read_financial_metrics api gfyp ticker yr yr tag w) =
           (if ds = [] then Inl (DataError None)
            else Inr (foldl (\<lambda>converted_response datapoint.
                         converted_response(d_year (dp_date datapoint) \<mapsto> dp_value datapoint))
                       Map.empty ds))"
  using assms(2)
    metric_miss_returned [where gfyp = gfyp and api = api, OF assms(1) assms(1), of w ticker tag ds]
    metric_hit [where gfyp = gfyp and api = api, OF assms(1) assms(1), of w ticker tag ds]
  by auto

lemma read_financial_metric_fst:
  "fst (read_financial_metric api gfyp ticker yr tag w) =
     (case fst (read_financial_metrics api gfyp ticker yr yr tag w) of
        Inl e \<Rightarrow> Inl e
      | Inr metrics \<Rightarrow> (case metrics yr of None \<Rightarrow> Inl (KeyError yr) | Some v \<Rightarrow> Inr v))"
  by (simp add: read_financial_metric_def split: prod.splits sum.splits option.splits)

lemma statement_op_on_prefix:
  assumes "yf \<le> y" "y \<le> yt"
    and "read_historical_financial_statement api str_upper t n yf (y - 1) tf w = (Inr h, w1)"
  shows "statement_loop api (str_upper t) n tf [yf..yt] Map.empty w
           = statement_loop api (str_upper t) n tf (y # [y + 1..yt]) h w1"
proof -
  from assms(3) have pre: "statement_loop api (str_upper t) n tf [yf..y - 1] Map.empty w
      = (Inr h, w1)"
    by (auto simp: read_historical_financial_statement_def split: prod.splits sum.splits)
  from assms(1,2) have "[yf..yt] = [yf..y - 1] @ (y # [y + 1..yt])"
    by (rule upto_split3)
  then show ?thesis by (simp add: statement_loop_append pre)
qed

section \<open>The metric of a single year\<close>

text \<open>
  Claim C9, as stated: when the series the provider returns omits the requested year, the
  caller gets a key failure. A series without any data point omits the year too, and then
  the series operation raises \<open>DataError\<close> before the lookup is reached.
\<close>

theorem single_year_metric_empty_series_counterexample:
  "fst (read_financial_metric empty_series_api calendar_year_period ''AAPL'' 2018
          ''adjdilutedeps'' empty_world) = Inl (DataError None) \<and>
   DataError None \<noteq> KeyError 2018"
proof -
  have "fst (read_financial_metrics empty_series_api calendar_year_period ''AAPL'' 2018 2018
          ''adjdilutedeps'' empty_world) = Inl (DataError None)"
    using metric_available [where gfyp = calendar_year_period and api = empty_series_api
        and w = "empty_world :: int world" and yr = 2018 and ticker = "''AAPL''"
        and tag = "''adjdilutedeps''" and ds = "[]"
        and sd = "str_int 2018 @ ''-01-01''" and ed = "str_int 2018 @ ''-12-31''"]
    by (simp add: calendar_year_period_def empty_world_def cache_read_def empty_series_api_def)
  then show ?thesis by (simp add: read_financial_metric_fst)
qed

text \<open>
  Claim C9, amended: the single-year operation delegates to the series operation with
  \<^verbatim>\<open>year_from = year_to = year\<close> and looks the year up in its result; an error of the series
  operation is passed on. With the series at hand (cached, or returned by the service on a
  miss): if it is not empty and omits the year, the caller receives \<open>KeyError\<close> for that year;
  if it holds the year, the caller receives the value of a data point of that year, never
  a default; if it is empty, the caller receives the \<open>DataError\<close> of the series operation.
\<close>

theorem single_year_metric_lookup:
  "read_financial_metric api gfyp ticker yr tag w =
     (case read_financial_metrics api gfyp ticker yr yr tag w of
        (Inl e, w') \<Rightarrow> (Inl e, w')
      | (Inr metrics, w') \<Rightarrow>
          (case metrics yr of None \<Rightarrow> (Inl (KeyError yr), w') | Some v \<Rightarrow> (Inr v, w'))) \<and>
   (gfyp yr 0 = Inr (sd, ed) \<and>
    (cache_read (store w) (Some (metric_cache_key ticker yr yr ''yearly'' tag)) = PyNone \<and>
     api (api_log w) (HistoricalDataRequest ticker tag ''yearly'' sd ed)
       = Returned (HistoricalDataResponse ds) \<or>
     cache_read (store w) (Some (metric_cache_key ticker yr yr ''yearly'' tag))
       = HistoricalDataResponse ds)
    \<longrightarrow>
      (ds = [] \<longrightarrow>
         fst (read_financial_metric api gfyp ticker yr tag w) = Inl (DataError None)) \<and>
      (ds \<noteq> [] \<and> yr \<notin> (\<lambda>d. d_year (dp_date d)) ` set ds \<longrightarrow>
         fst (read_financial_metric api gfyp ticker yr tag w) = Inl (KeyError yr)) \<and>
      (ds \<noteq> [] \<and> yr \<in> (\<lambda>d. d_year (dp_date d)) ` set ds \<longrightarrow>
         (\<exists>d\<in>set ds. d_year (dp_date d) = yr \<and>
            fst (read_financial_metric api gfyp ticker yr tag w) = Inr (dp_value d))))"
proof (intro conjI impI)
  show "read_financial_metric api gfyp ticker yr tag w =
     (case read_financial_metrics api gfyp ticker yr yr tag w of
        (Inl e, w') \<Rightarrow> (Inl e, w')
      | (Inr metrics, w') \<Rightarrow>
          (case metrics yr of None \<Rightarrow> (Inl (KeyError yr), w') | Some v \<Rightarrow> (Inr v, w')))"
    by (simp add: read_financial_metric_def)
next
  let ?m = "foldl (\<lambda>converted_response datapoint.
                converted_response(d_year (dp_date datapoint) \<mapsto> dp_value datapoint))
              Map.empty ds"
  assume a: "gfyp yr 0 = Inr (sd, ed) \<and>
    (cache_read (store w) (Some (metric_cache_key ticker yr yr ''yearly'' tag)) = PyNone \<and>
     api (api_log w) (HistoricalDataRequest ticker tag ''yearly'' sd ed)
       = Returned (HistoricalDataResponse ds) \<or>
     cache_read (store w) (Some (metric_cache_key ticker yr yr ''yearly'' tag))
       = HistoricalDataResponse ds)"
  then have series: "fst (read_financial_metrics api gfyp ticker yr yr tag w) =
           (if ds = [] then Inl (DataError None) else Inr ?m)"
    using metric_available [of gfyp yr sd ed w ticker tag api ds] by blast
  {
    assume "ds = []"
    with series show "fst (read_financial_metric api gfyp ticker yr tag w) = Inl (DataError None)"
      by (simp add: read_financial_metric_fst)
  }
  {
    assume b: "ds \<noteq> [] \<and> yr \<notin> (\<lambda>d. d_year (dp_date d)) ` set ds"
    then have "yr \<notin> dom ?m" unfolding foldl_upd_dom by simp
    then have "?m yr = None" by blast
    with series b show "fst (read_financial_metric api gfyp ticker yr tag w) = Inl (KeyError yr)"
      by (simp add: read_financial_metric_fst)
  }
  {
    assume b: "ds \<noteq> [] \<and> yr \<in> (\<lambda>d. d_year (dp_date d)) ` set ds"
    then have "yr \<in> dom ?m" unfolding foldl_upd_dom by simp
    then obtain v where v: "?m yr = Some v" by blast
    from foldl_upd_Some [OF this] obtain d where d: "d \<in> set ds" "d_year (dp_date d) = yr"
      "dp_value d = v" by auto
    from series b v have "fst (read_financial_metric api gfyp ticker yr tag w) = Inr v"
      by (simp add: read_financial_metric_fst)
    with d show "\<exists>d\<in>set ds. d_year (dp_date d) = yr \<and>
            fst (read_financial_metric api gfyp ticker yr tag w) = Inr (dp_value d)"
      by blast
  }
qed

theorem single_year_metric_lookup_witness:
  "fst (read_financial_metric stale_company_api calendar_year_period ''AAPL'' 2018
          ''adjdilutedeps'' empty_world) = Inl (KeyError 2018)"
  using single_year_metric_lookup [where gfyp = calendar_year_period
        and api = stale_company_api
        and w = "empty_world :: int world" and yr = 2018 and ticker = "''AAPL''"
        and tag = "''adjdilutedeps''" and ds = "[Datapoint (Date 2017 12 31) 42]"
        and sd = "str_int 2018 @ ''-01-01''" and ed = "str_int 2018 @ ''-12-31''",
        THEN conjunct2]
  by (simp add: calendar_year_period_def empty_world_def cache_read_def stale_company_api_def)

section \<open>Facts about the normalisation of a statement\<close>

lemma foldl_upd_other:
  "x \<notin> k ` set ds \<Longrightarrow> foldl (\<lambda>m d. m(k d \<mapsto> v d)) m0 ds x = m0 x"
  by (induction ds arbitrary: m0) auto

lemma foldl_upd_last:
  "k f \<notin> k ` set fs2 \<Longrightarrow>
     foldl (\<lambda>m d. m(k d \<mapsto> v d)) m0 (fs1 @ f # fs2) (k f) = Some (v f)"
  by (simp add: foldl_upd_other)

lemma transform_None:
  "transform_financial_stmt fs None
     = foldl (\<lambda>m d. m(data_tag_tag d \<mapsto> fin_value d)) Map.empty fs"
  by (simp add: transform_financial_stmt_def)

lemma transform_snoc:
  "transform_financial_stmt (fs @ [f]) tf
     = (if (case tf of None \<Rightarrow> True | Some tags \<Rightarrow> data_tag_tag f \<in> set tags)
        then (transform_financial_stmt fs tf)(data_tag_tag f \<mapsto> fin_value f)
        else transform_financial_stmt fs tf)"
  by (simp add: transform_financial_stmt_def)

lemma transform_filter:
  "transform_financial_stmt fs tf tag
     = (if (case tf of None \<Rightarrow> True | Some tags \<Rightarrow> tag \<in> set tags)
        then transform_financial_stmt fs None tag else None)"
proof (induction fs rule: rev_induct)
  case Nil
  then show ?case by (simp add: transform_financial_stmt_def)
next
  case (snoc f fs)
  show ?case
    unfolding transform_snoc [of fs f tf] transform_snoc [of fs f None]
    using snoc.IH by (cases tf) auto
qed

lemma transform_Some_mem:
  "transform_financial_stmt fs None tag = Some v \<Longrightarrow> Financial tag v \<in> set fs"
proof -
  assume "transform_financial_stmt fs None tag = Some v"
  then have "foldl (\<lambda>m d. m(data_tag_tag d \<mapsto> fin_value d)) Map.empty fs tag = Some v"
    by (simp add: transform_None)
  from foldl_upd_Some [OF this] obtain d where "d \<in> set fs" "data_tag_tag d = tag"
    "fin_value d = v" by auto
  then show ?thesis by (cases d) auto
qed

lemma transform_dom: "dom (transform_financial_stmt fs None) = data_tag_tag ` set fs"
  by (simp add: transform_None foldl_upd_dom)

lemma transform_last:
  "data_tag_tag f \<notin> data_tag_tag ` set fs2 \<Longrightarrow>
     transform_financial_stmt (fs1 @ f # fs2) None (data_tag_tag f) = Some (fin_value f)"
  unfolding transform_None by (rule foldl_upd_last)

lemma transform_distinct:
  assumes "distinct (map data_tag_tag fs)"
  shows "transform_financial_stmt fs None tag = Some v \<longleftrightarrow> Financial tag v \<in> set fs"
proof
  assume "transform_financial_stmt fs None tag = Some v"
  then show "Financial tag v \<in> set fs" by (rule transform_Some_mem)
next
  assume "Financial tag v \<in> set fs"
  then obtain fs1 fs2 where fs: "fs = fs1 @ Financial tag v # fs2"
    by (auto simp: in_set_conv_decomp)
  with assms have "data_tag_tag (Financial tag v) \<notin> data_tag_tag ` set fs2" by auto
  from transform_last [OF this, of fs1] fs
  show "transform_financial_stmt fs None tag = Some v" by simp
qed

lemma statement_loop_available:
  assumes "\<forall>y\<in>set ys.
      cache_read (store w) (Some (statement_cache_key u n ''FY'' y))
        = StandardizedFinancialsResponse (raw y) \<or>
      cache_read (store w) (Some (statement_cache_key u n ''FY'' y)) = PyNone \<and>
      (\<forall>log. api log (StandardizedFinancialsRequest
                         (u @ ''-'' @ n @ ''-'' @ str_int y @ ''-'' @ ''FY''))
               = Returned (StandardizedFinancialsResponse (raw y)))"
  shows "fst (statement_loop api u n tf ys h w)
           = Inr (\<lambda>y. if y \<in> set ys then Some (transform_financial_stmt (raw y) tf) else h y)"
  using assms
proof (induction ys arbitrary: h w)
  case Nil
  then show ?case by simp
next
  case (Cons i ys)
  let ?K = "\<lambda>y. Some (statement_cache_key u n ''FY'' y)"
  let ?R = "\<lambda>y. StandardizedFinancialsRequest (u @ ''-'' @ n @ ''-'' @ str_int y @ ''-'' @ ''FY'')"
  let ?T = "\<lambda>y. transform_financial_stmt (raw y) tf"
  obtain r w1 where sy: "statement_year api u n tf i w = (r, w1)"
    by (cases "statement_year api u n tf i w")
  from Cons.prems have Ai: "cache_read (store w) (?K i) = StandardizedFinancialsResponse (raw i) \<or>
      cache_read (store w) (?K i) = PyNone \<and>
      (\<forall>log. api log (?R i) = Returned (StandardizedFinancialsResponse (raw i)))"
    by simp
  then have "fst (statement_year api u n tf i w) = Inr (?T i)"
    using statement_year_available [of w u n i api "raw i" tf] by blast
  with sy have r: "r = Inr (?T i)" by simp
  from Ai have here: "cache_read (store w1) (?K i) = StandardizedFinancialsResponse (raw i)"
    using statement_year_store [of api u n tf i w] sy
    by (auto simp: cache_read_write_response statement_key_nonempty cache_read_def)
  have after: "\<forall>y\<in>set ys.
      cache_read (store w1) (?K y) = StandardizedFinancialsResponse (raw y) \<or>
      cache_read (store w1) (?K y) = PyNone \<and>
      (\<forall>log. api log (?R y) = Returned (StandardizedFinancialsResponse (raw y)))"
  proof
    fix y assume y: "y \<in> set ys"
    show "cache_read (store w1) (?K y) = StandardizedFinancialsResponse (raw y) \<or>
      cache_read (store w1) (?K y) = PyNone \<and>
      (\<forall>log. api log (?R y) = Returned (StandardizedFinancialsResponse (raw y)))"
    proof (cases "y = i")
      case True
      with here show ?thesis by simp
    next
      case False
      then have "?K y \<noteq> ?K i" by (auto dest: statement_key_year_inj)
      from statement_year_frame [OF this, of api tf w] sy
      have "cache_read (store w1) (?K y) = cache_read (store w) (?K y)"
        by (simp add: cache_read_def)
      with Cons.prems y show ?thesis by simp
    qed
  qed
  from Cons.IH [OF after, of "h(i \<mapsto> ?T i)"]
  have "fst (statement_loop api u n tf ys (h(i \<mapsto> ?T i)) w1)
      = Inr (\<lambda>y. if y \<in> set ys then Some (?T y) else (h(i \<mapsto> ?T i)) y)" .
  moreover have "(\<lambda>y. if y \<in> set ys then Some (?T y) else (h(i \<mapsto> ?T i)) y)
      = (\<lambda>y. if y \<in> set (i # ys) then Some (?T y) else h y)"
    by auto
  moreover have "statement_loop api u n tf (i # ys) h w
      = statement_loop api u n tf ys (h(i \<mapsto> ?T i)) w1"
    by (simp add: sy r)
  ultimately show ?case by simp
qed

lemma statement_fst:
  "fst (read_historical_financial_statement api up t n yf yt tf w)
     = (case fst (statement_loop api (up t) n tf [yf..yt] Map.empty w) of
          Inl e \<Rightarrow> Inl (case e of ApiException x \<Rightarrow> DataError (Some e) | _ \<Rightarrow> e)
        | Inr hist \<Rightarrow> Inr hist)"
  by (simp add: read_historical_financial_statement_def split: prod.splits sum.splits)


section \<open>The contents of a historical statement retrieval\<close>

text \<open>
  Claim C3, as stated: for every ticker, year range and filter the retrieval returns a mapping
  with one entry per year, and each entry holds exactly the pairs of the raw statement whose
  tag passes the filter. Two inputs show otherwise. Asked for 2018 to 2020 of a service that
  has no statement for 2020, the operation returns no mapping at all but raises. And a raw
  statement that lists a tag twice keeps only the later value: of the raw pairs (a, 1) and
  (a, 2) the entry holds (a, 2) alone.
\<close>

theorem historical_statement_counterexample:
  "fst (read_historical_financial_statement aapl_fundamentals_api ascii_upper ''AAPL''
          ''income_statement'' 2018 2020 (Some [''totalrevenue'']) empty_world)
     = Inl (DataError (Some (ApiException ''not found''))) \<and>
   Financial ''a'' 1 \<in> set [Financial ''a'' 1, Financial ''a'' (2 :: int)] \<and>
   transform_financial_stmt [Financial ''a'' 1, Financial ''a'' (2 :: int)] None ''a'' = Some 2 \<and>
   transform_financial_stmt [Financial ''a'' 1, Financial ''a'' (2 :: int)] None ''a'' \<noteq> Some 1"
proof -
  have k: "statement_cache_key ''AAPL'' ''income_statement'' ''FY'' 2019
      \<noteq> statement_cache_key ''AAPL'' ''income_statement'' ''FY'' 2018"
    "statement_cache_key ''AAPL'' ''income_statement'' ''FY'' 2020
      \<noteq> statement_cache_key ''AAPL'' ''income_statement'' ''FY'' 2018"
    "statement_cache_key ''AAPL'' ''income_statement'' ''FY'' 2020
      \<noteq> statement_cache_key ''AAPL'' ''income_statement'' ''FY'' 2019"
    by (auto dest: statement_key_year_inj)
  have "fst (read_historical_financial_statement aapl_fundamentals_api ascii_upper ''AAPL''
          ''income_statement'' 2018 2020 (Some [''totalrevenue'']) empty_world)
     = Inl (DataError (Some (ApiException ''not found'')))"
    using k
    by (simp add: read_historical_financial_statement_def years_2018_2020 ascii_upper_AAPL
          statement_year_def Let_def str_years empty_world_def cache_read_def
          cache_read_write_response statement_key_nonempty aapl_fundamentals_api_def
          standardized_financials_def)
  then show ?thesis by (simp add: transform_financial_stmt_def)
qed

text \<open>
  Claim C3, amended: for every ticker, year range and filter, when the raw statement of every
  year of the range is at hand (cached under the key of the year, or served by the API on a
  miss), the retrieval returns a mapping with exactly one entry per year of the inclusive
  range, the entry of a year being the normalisation of the raw statement of that year.
  Whenever the retrieval returns a mapping, it is of that kind, for the statements then in
  the cache. The normalisation of a raw statement under a filter is its unfiltered
  normalisation restricted to the tags of the filter (all of it when the filter is
  \<^verbatim>\<open>None\<close>), so the values equal those of the unfiltered statement; the unfiltered
  normalisation has exactly the tags of the raw statement, every pair of it is a pair of the
  raw statement, and a tag carries the value of its last line item. For a raw statement
  that lists no tag twice, its pairs are exactly the pairs of the raw statement. In
  particular, for AAPL, 2018 to 2019 and the filter \<^verbatim>\<open>["totalrevenue"]\<close>, with the API
  of the scenario, the result is the mapping of 2018 to (totalrevenue, 1000) and of 2019 to
  (totalrevenue, 1100).
\<close>

theorem historical_statement_contents:
  "((\<forall>y\<in>{yf..yt}.
       cache_read (store w) (Some (statement_cache_key (str_upper t) n ''FY'' y))
         = StandardizedFinancialsResponse (raw y) \<or>
       cache_read (store w) (Some (statement_cache_key (str_upper t) n ''FY'' y)) = PyNone \<and>
       (\<forall>log. api log (StandardizedFinancialsRequest
                          (str_upper t @ ''-'' @ n @ ''-'' @ str_int y @ ''-'' @ ''FY''))
                = Returned (StandardizedFinancialsResponse (raw y))))
    \<longrightarrow> (\<exists>hist.
          fst (read_historical_financial_statement api str_upper t n yf yt tf w) = Inr hist \<and>
          dom hist = {yf..yt} \<and>
          (\<forall>y\<in>{yf..yt}. hist y = Some (transform_financial_stmt (raw y) tf)))) \<and>
   (\<forall>hist w'.
      read_historical_financial_statement api str_upper t n yf yt tf w = (Inr hist, w') \<longrightarrow>
      dom hist = {yf..yt} \<and>
      (\<forall>y\<in>{yf..yt}. \<exists>fs.
          store w' (Some (statement_cache_key (str_upper t) n ''FY'' y))
            = Some (StandardizedFinancialsResponse fs) \<and>
          hist y = Some (transform_financial_stmt fs tf))) \<and>
   (\<forall>tag. transform_financial_stmt fs tf tag
            = (if (case tf of None \<Rightarrow> True | Some tags \<Rightarrow> tag \<in> set tags)
               then transform_financial_stmt fs None tag else None)) \<and>
   (\<forall>tag v. transform_financial_stmt fs None tag = Some v \<longrightarrow> Financial tag v \<in> set fs) \<and>
   dom (transform_financial_stmt fs None) = data_tag_tag ` set fs \<and>
   (\<forall>fs1 f fs2. fs = fs1 @ f # fs2 \<and> data_tag_tag f \<notin> data_tag_tag ` set fs2 \<longrightarrow>
      transform_financial_stmt fs None (data_tag_tag f) = Some (fin_value f)) \<and>
   (distinct (map data_tag_tag fs) \<longrightarrow>
      (\<forall>tag v. transform_financial_stmt fs None tag = Some v \<longleftrightarrow> Financial tag v \<in> set fs)) \<and>
   fst (read_historical_financial_statement aapl_fundamentals_api ascii_upper ''AAPL''
          ''income_statement'' 2018 2019 (Some [''totalrevenue'']) empty_world)
     = Inr [2018 \<mapsto> [''totalrevenue'' \<mapsto> 1000], 2019 \<mapsto> [''totalrevenue'' \<mapsto> 1100]]"
proof (intro conjI)
  show "(\<forall>y\<in>{yf..yt}.
       cache_read (store w) (Some (statement_cache_key (str_upper t) n ''FY'' y))
         = StandardizedFinancialsResponse (raw y) \<or>
       cache_read (store w) (Some (statement_cache_key (str_upper t) n ''FY'' y)) = PyNone \<and>
       (\<forall>log. api log (StandardizedFinancialsRequest
                          (str_upper t @ ''-'' @ n @ ''-'' @ str_int y @ ''-'' @ ''FY''))
                = Returned (StandardizedFinancialsResponse (raw y))))
    \<longrightarrow> (\<exists>hist.
          fst (read_historical_financial_statement api str_upper t n yf yt tf w) = Inr hist \<and>
          dom hist = {yf..yt} \<and>
          (\<forall>y\<in>{yf..yt}. hist y = Some (transform_financial_stmt (raw y) tf)))"
  proof
    assume a: "\<forall>y\<in>{yf..yt}.
       cache_read (store w) (Some (statement_cache_key (str_upper t) n ''FY'' y))
         = StandardizedFinancialsResponse (raw y) \<or>
       cache_read (store w) (Some (statement_cache_key (str_upper t) n ''FY'' y)) = PyNone \<and>
       (\<forall>log. api log (StandardizedFinancialsRequest
                          (str_upper t @ ''-'' @ n @ ''-'' @ str_int y @ ''-'' @ ''FY''))
                = Returned (StandardizedFinancialsResponse (raw y)))"
    let ?hist = "\<lambda>y. if y \<in> set [yf..yt] then Some (transform_financial_stmt (raw y) tf)
                     else Map.empty y"
    from a have "fst (statement_loop api (str_upper t) n tf [yf..yt] Map.empty w) = Inr ?hist"
      using statement_loop_available [of "[yf..yt]" w "str_upper t" n raw api tf Map.empty]
      by simp
    then have "fst (read_historical_financial_statement api str_upper t n yf yt tf w)
        = Inr ?hist"
      by (simp add: statement_fst)
    moreover have "dom ?hist = {yf..yt}" by (auto simp: dom_def)
    moreover have "\<forall>y\<in>{yf..yt}. ?hist y = Some (transform_financial_stmt (raw y) tf)"
      by simp
    ultimately show "\<exists>hist.
          fst (read_historical_financial_statement api str_upper t n yf yt tf w) = Inr hist \<and>
          dom hist = {yf..yt} \<and>
          (\<forall>y\<in>{yf..yt}. hist y = Some (transform_financial_stmt (raw y) tf))"
      by blast
  qed
next
  show "\<forall>hist w'.
      read_historical_financial_statement api str_upper t n yf yt tf w = (Inr hist, w') \<longrightarrow>
      dom hist = {yf..yt} \<and>
      (\<forall>y\<in>{yf..yt}. \<exists>fs.
          store w' (Some (statement_cache_key (str_upper t) n ''FY'' y))
            = Some (StandardizedFinancialsResponse fs) \<and>
          hist y = Some (transform_financial_stmt fs tf))"
  proof (intro allI impI)
    fix hist w'
    assume "read_historical_financial_statement api str_upper t n yf yt tf w = (Inr hist, w')"
    then have "statement_loop api (str_upper t) n tf [yf..yt] Map.empty w = (Inr hist, w')"
      by (auto simp: read_historical_financial_statement_def split: prod.splits sum.splits)
    from statement_loop_ok [OF this]
    show "dom hist = {yf..yt} \<and>
      (\<forall>y\<in>{yf..yt}. \<exists>fs.
          store w' (Some (statement_cache_key (str_upper t) n ''FY'' y))
            = Some (StandardizedFinancialsResponse fs) \<and>
          hist y = Some (transform_financial_stmt fs tf))"
      by (auto simp: dom_def)
  qed
next
  show "\<forall>tag. transform_financial_stmt fs tf tag
            = (if (case tf of None \<Rightarrow> True | Some tags \<Rightarrow> tag \<in> set tags)
               then transform_financial_stmt fs None tag else None)"
    using transform_filter [of fs tf] by blast
next
  show "\<forall>tag v. transform_financial_stmt fs None tag = Some v \<longrightarrow> Financial tag v \<in> set fs"
    using transform_Some_mem [of fs] by blast
next
  show "dom (transform_financial_stmt fs None) = data_tag_tag ` set fs"
    by (rule transform_dom)
next
  show "\<forall>fs1 f fs2. fs = fs1 @ f # fs2 \<and> data_tag_tag f \<notin> data_tag_tag ` set fs2 \<longrightarrow>
      transform_financial_stmt fs None (data_tag_tag f) = Some (fin_value f)"
    using transform_last by blast
next
  show "distinct (map data_tag_tag fs) \<longrightarrow>
      (\<forall>tag v. transform_financial_stmt fs None tag = Some v \<longleftrightarrow> Financial tag v \<in> set fs)"
    using transform_distinct [of fs] by blast
next
  show "fst (read_historical_financial_statement aapl_fundamentals_api ascii_upper ''AAPL''
          ''income_statement'' 2018 2019 (Some [''totalrevenue'']) empty_world)
     = Inr [2018 \<mapsto> [''totalrevenue'' \<mapsto> 1000], 2019 \<mapsto> [''totalrevenue'' \<mapsto> 1100]]"
    by (simp add: aapl_run)
qed

theorem historical_statement_contents_witness:
  "\<exists>hist. fst (read_historical_financial_statement aapl_fundamentals_api ascii_upper ''AAPL''
                 ''income_statement'' 2018 2019 (Some [''totalrevenue'']) empty_world)
             = Inr hist \<and>
          dom hist = {2018..2019} \<and>
          hist 2018 = Some [''totalrevenue'' \<mapsto> 1000] \<and>
          hist 2019 = Some [''totalrevenue'' \<mapsto> 1100]"
proof -
  let ?raw = "\<lambda>y :: int. if y = 2018
                then [Financial ''totalrevenue'' 1000, Financial ''other'' (5 :: int)]
                else [Financial ''totalrevenue'' 1100]"
  have avail: "\<forall>y\<in>{2018..2019}.
       cache_read (store (empty_world :: int world))
           (Some (statement_cache_key (ascii_upper ''AAPL'') ''income_statement'' ''FY'' y))
         = StandardizedFinancialsResponse (?raw y) \<or>
       cache_read (store (empty_world :: int world))
           (Some (statement_cache_key (ascii_upper ''AAPL'') ''income_statement'' ''FY'' y))
         = PyNone \<and>
       (\<forall>log. aapl_fundamentals_api log (StandardizedFinancialsRequest
                 (ascii_upper ''AAPL'' @ ''-'' @ ''income_statement'' @ ''-'' @ str_int y
                    @ ''-'' @ ''FY''))
                = Returned (StandardizedFinancialsResponse (?raw y)))"
  proof
    fix y :: int assume "y \<in> {2018..2019}"
    then have "y = 2018 \<or> y = 2019" by auto
    then show "cache_read (store (empty_world :: int world))
           (Some (statement_cache_key (ascii_upper ''AAPL'') ''income_statement'' ''FY'' y))
         = StandardizedFinancialsResponse (?raw y) \<or>
       cache_read (store (empty_world :: int world))
           (Some (statement_cache_key (ascii_upper ''AAPL'') ''income_statement'' ''FY'' y))
         = PyNone \<and>
       (\<forall>log. aapl_fundamentals_api log (StandardizedFinancialsRequest
                 (ascii_upper ''AAPL'' @ ''-'' @ ''income_statement'' @ ''-'' @ str_int y
                    @ ''-'' @ ''FY''))
                = Returned (StandardizedFinancialsResponse (?raw y)))"
      by (auto simp: empty_world_def cache_read_def aapl_fundamentals_api_def
            ascii_upper_AAPL str_years)
  qed
  from historical_statement_contents [where api = aapl_fundamentals_api
      and str_upper = ascii_upper and t = "''AAPL''" and n = "''income_statement''"
      and yf = 2018 and yt = 2019 and tf = "Some [''totalrevenue'']"
      and w = "empty_world :: int world" and raw = ?raw, THEN conjunct1, THEN mp, OF avail]
  show ?thesis
    by (auto simp: transform_financial_stmt_def)
qed


section \<open>Facts about a year whose API call raises\<close>

lemma statement_abort:
  assumes "yf \<le> y" "y \<le> yt"
    and "read_historical_financial_statement api str_upper t n yf (y - 1) tf w = (Inr h, w1)"
    and "cache_read (store w1) (Some (statement_cache_key (str_upper t) n ''FY'' y)) = PyNone"
    and "api (api_log w1)
           (StandardizedFinancialsRequest
              (str_upper t @ ''-'' @ n @ ''-'' @ str_int y @ ''-'' @ ''FY'')) = Raised ex"
  shows "read_historical_financial_statement api str_upper t n yf yt tf w
           = (Inl (case ex of ApiException x \<Rightarrow> DataError (Some ex) | _ \<Rightarrow> ex),
              \<lparr>store = store w1,
               api_log = api_log w1 @ [StandardizedFinancialsRequest
                 (str_upper t @ ''-'' @ n @ ''-'' @ str_int y @ ''-'' @ ''FY'')]\<rparr>)"
proof -
  let ?req = "StandardizedFinancialsRequest
      (str_upper t @ ''-'' @ n @ ''-'' @ str_int y @ ''-'' @ ''FY'')"
  let ?w2 = "\<lparr>store = store w1, api_log = api_log w1 @ [?req]\<rparr>"
  have "statement_year api (str_upper t) n tf y w1 = (Inl ex, ?w2)"
    using statement_year_raises [of w1 "str_upper t" n y api ex tf] assms(4,5) by simp
  moreover have "statement_loop api (str_upper t) n tf [yf..yt] Map.empty w
         = statement_loop api (str_upper t) n tf (y # [y + 1..yt]) h w1"
    using statement_op_on_prefix [of yf y yt api str_upper t n tf w h w1] assms(1-3) by simp
  ultimately have "statement_loop api (str_upper t) n tf [yf..yt] Map.empty w = (Inl ex, ?w2)"
    by simp
  then show ?thesis by (simp add: read_historical_financial_statement_def)
qed

lemma statement_abort_available:
  assumes "yf \<le> y" "y \<le> yt"
    and "\<forall>y'\<in>{yf..y - 1}.
       cache_read (store w) (Some (statement_cache_key (str_upper t) n ''FY'' y'))
         = StandardizedFinancialsResponse (raw y') \<or>
       cache_read (store w) (Some (statement_cache_key (str_upper t) n ''FY'' y')) = PyNone \<and>
       (\<forall>log. api log (StandardizedFinancialsRequest
                          (str_upper t @ ''-'' @ n @ ''-'' @ str_int y' @ ''-'' @ ''FY''))
                = Returned (StandardizedFinancialsResponse (raw y')))"
    and "cache_read (store w) (Some (statement_cache_key (str_upper t) n ''FY'' y)) = PyNone"
    and "\<forall>log. api log (StandardizedFinancialsRequest
                         (str_upper t @ ''-'' @ n @ ''-'' @ str_int y @ ''-'' @ ''FY''))
               = Raised ex"
  shows "fst (read_historical_financial_statement api str_upper t n yf yt tf w)
           = Inl (case ex of ApiException x \<Rightarrow> DataError (Some ex) | _ \<Rightarrow> ex)"
proof -
  let ?K = "\<lambda>y. Some (statement_cache_key (str_upper t) n ''FY'' y)"
  obtain r w1 where loop: "statement_loop api (str_upper t) n tf [yf..y - 1] Map.empty w = (r, w1)"
    by (cases "statement_loop api (str_upper t) n tf [yf..y - 1] Map.empty w")
  from assms(3) obtain h where "fst (statement_loop api (str_upper t) n tf [yf..y - 1] Map.empty w)
      = Inr h"
    using statement_loop_available [of "[yf..y - 1]" w "str_upper t" n raw api tf Map.empty]
    by simp
  with loop have r: "r = Inr h" by simp
  with loop have pre: "read_historical_financial_statement api str_upper t n yf (y - 1) tf w
      = (Inr h, w1)"
    by (simp add: read_historical_financial_statement_def)
  have "?K y \<notin> ?K ` set [yf..y - 1]"
    by (auto dest: statement_key_year_inj)
  from statement_loop_frame [OF this, of api tf Map.empty w] loop
  have "store w1 (?K y) = store w (?K y)" by simp
  with assms(4) have miss: "cache_read (store w1) (?K y) = PyNone"
    by (simp add: cache_read_def)
  from assms(5) have "api (api_log w1) (StandardizedFinancialsRequest
      (str_upper t @ ''-'' @ n @ ''-'' @ str_int y @ ''-'' @ ''FY'')) = Raised ex" by simp
  from statement_abort [OF assms(1,2) pre miss this] show ?thesis by simp
qed

section \<open>One failing year aborts the statement retrieval\<close>

text \<open>
  Claim C6, as stated: whenever the fundamentals API fails for a year of the range, the
  operation raises \<open>DataError\<close> wrapping the error. The \<^verbatim>\<open>except\<close> clause of line 448 names the
  SDK's \<^verbatim>\<open>ApiException\<close> only: when the call fails with another exception (here a refused
  connection) the operation raises that exception itself.
\<close>

theorem statement_retrieval_other_exception_counterexample:
  "fst (read_historical_financial_statement disconnected_api ascii_upper ''AAPL''
          ''income_statement'' 2018 2019 None empty_world)
     = Inl (OtherException ''connection refused'') \<and>
   OtherException ''connection refused''
     \<noteq> DataError (Some (OtherException ''connection refused''))"
  by (simp add: read_historical_financial_statement_def years_2018_2019 ascii_upper_AAPL
        statement_year_def Let_def empty_world_def cache_read_def disconnected_api_def)

text \<open>
  Claim C6, amended: let the retrieval have succeeded for the years before \<open>y\<close>, let the
  statement of \<open>y\<close> not be cached, and let the API call for \<open>y\<close> raise. Then the whole
  operation raises and returns no partial result: the mapping built for the earlier years is
  dropped, the cache is as the earlier years left it, and the request for \<open>y\<close> is the last one
  sent. When the exception is the SDK's \<^verbatim>\<open>ApiException\<close>, the operation raises \<open>DataError\<close>
  wrapping it. The same holds when the earlier years are described by what is at hand: each
  of them cached or served by the API, the statement of \<open>y\<close> not cached, and the API raising
  for \<open>y\<close>. Whenever the operation does return a mapping, the mapping has an entry for every
  year of the range: there are no partial results.
\<close>

theorem statement_retrieval_aborts_on_first_api_error:
  "(yf \<le> y \<and> y \<le> yt \<and>
    read_historical_financial_statement api str_upper t n yf (y - 1) tf w = (Inr h, w1) \<and>
    cache_read (store w1) (Some (statement_cache_key (str_upper t) n ''FY'' y)) = PyNone \<and>
    api (api_log w1)
      (StandardizedFinancialsRequest (str_upper t @ ''-'' @ n @ ''-'' @ str_int y @ ''-'' @ ''FY''))
      = Raised ex
    \<longrightarrow>
      (\<exists>e. fst (read_historical_financial_statement api str_upper t n yf yt tf w) = Inl e) \<and>
      (\<forall>msg. ex = ApiException msg \<longrightarrow>
         fst (read_historical_financial_statement api str_upper t n yf yt tf w)
           = Inl (DataError (Some (ApiException msg)))) \<and>
      snd (read_historical_financial_statement api str_upper t n yf yt tf w)
        = \<lparr>store = store w1,
           api_log = api_log w1 @ [StandardizedFinancialsRequest
             (str_upper t @ ''-'' @ n @ ''-'' @ str_int y @ ''-'' @ ''FY'')]\<rparr>) \<and>
   (yf \<le> y \<and> y \<le> yt \<and>
    (\<forall>y'\<in>{yf..y - 1}.
       cache_read (store w) (Some (statement_cache_key (str_upper t) n ''FY'' y'))
         = StandardizedFinancialsResponse (raw y') \<or>
       cache_read (store w) (Some (statement_cache_key (str_upper t) n ''FY'' y')) = PyNone \<and>
       (\<forall>log. api log (StandardizedFinancialsRequest
                          (str_upper t @ ''-'' @ n @ ''-'' @ str_int y' @ ''-'' @ ''FY''))
                = Returned (StandardizedFinancialsResponse (raw y')))) \<and>
    cache_read (store w) (Some (statement_cache_key (str_upper t) n ''FY'' y)) = PyNone \<and>
    (\<forall>log. api log (StandardizedFinancialsRequest
                       (str_upper t @ ''-'' @ n @ ''-'' @ str_int y @ ''-'' @ ''FY''))
             = Raised ex)
    \<longrightarrow>
      (\<exists>e. fst (read_historical_financial_statement api str_upper t n yf yt tf w) = Inl e) \<and>
      (\<forall>msg. ex = ApiException msg \<longrightarrow>
         fst (read_historical_financial_statement api str_upper t n yf yt tf w)
           = Inl (DataError (Some (ApiException msg))))) \<and>
   (\<forall>hist w'.
      read_historical_financial_statement api str_upper t n yf yt tf w = (Inr hist, w')
      \<longrightarrow> dom hist = {yf..yt})"
proof (intro conjI impI allI)
  {
    assume a: "yf \<le> y \<and> y \<le> yt \<and>
      read_historical_financial_statement api str_upper t n yf (y - 1) tf w = (Inr h, w1) \<and>
      cache_read (store w1) (Some (statement_cache_key (str_upper t) n ''FY'' y)) = PyNone \<and>
      api (api_log w1) (StandardizedFinancialsRequest
        (str_upper t @ ''-'' @ n @ ''-'' @ str_int y @ ''-'' @ ''FY'')) = Raised ex"
    then have res: "read_historical_financial_statement api str_upper t n yf yt tf w
        = (Inl (case ex of ApiException x \<Rightarrow> DataError (Some ex) | _ \<Rightarrow> ex),
           \<lparr>store = store w1,
            api_log = api_log w1 @ [StandardizedFinancialsRequest
              (str_upper t @ ''-'' @ n @ ''-'' @ str_int y @ ''-'' @ ''FY'')]\<rparr>)"
      using statement_abort [of yf y yt api str_upper t n tf w h w1 ex] by blast
    from res show "\<exists>e. fst (read_historical_financial_statement api str_upper t n yf yt tf w)
        = Inl e" by simp
    from res show "snd (read_historical_financial_statement api str_upper t n yf yt tf w)
        = \<lparr>store = store w1,
           api_log = api_log w1 @ [StandardizedFinancialsRequest
             (str_upper t @ ''-'' @ n @ ''-'' @ str_int y @ ''-'' @ ''FY'')]\<rparr>"
      by simp
    fix msg
    assume "ex = ApiException msg"
    with res show "fst (read_historical_financial_statement api str_upper t n yf yt tf w)
        = Inl (DataError (Some (ApiException msg)))" by simp
  }
  {
    assume a: "yf \<le> y \<and> y \<le> yt \<and>
      (\<forall>y'\<in>{yf..y - 1}.
         cache_read (store w) (Some (statement_cache_key (str_upper t) n ''FY'' y'))
           = StandardizedFinancialsResponse (raw y') \<or>
         cache_read (store w) (Some (statement_cache_key (str_upper t) n ''FY'' y')) = PyNone \<and>
         (\<forall>log. api log (StandardizedFinancialsRequest
                            (str_upper t @ ''-'' @ n @ ''-'' @ str_int y' @ ''-'' @ ''FY''))
                  = Returned (StandardizedFinancialsResponse (raw y')))) \<and>
      cache_read (store w) (Some (statement_cache_key (str_upper t) n ''FY'' y)) = PyNone \<and>
      (\<forall>log. api log (StandardizedFinancialsRequest
                         (str_upper t @ ''-'' @ n @ ''-'' @ str_int y @ ''-'' @ ''FY''))
               = Raised ex)"
    then have res: "fst (read_historical_financial_statement api str_upper t n yf yt tf w)
           = Inl (case ex of ApiException x \<Rightarrow> DataError (Some ex) | _ \<Rightarrow> ex)"
      using statement_abort_available [of yf y yt w str_upper t n raw api ex tf] by blast
    from res show "\<exists>e. fst (read_historical_financial_statement api str_upper t n yf yt tf w)
        = Inl e" by simp
    fix msg
    assume "ex = ApiException msg"
    with res show "fst (read_historical_financial_statement api str_upper t n yf yt tf w)
        = Inl (DataError (Some (ApiException msg)))" by simp
  }
  {
    fix hist w'
    assume "read_historical_financial_statement api str_upper t n yf yt tf w = (Inr hist, w')"
    then have "statement_loop api (str_upper t) n tf [yf..yt] Map.empty w = (Inr hist, w')"
      by (auto simp: read_historical_financial_statement_def split: prod.splits sum.splits)
    from statement_loop_ok [OF this] show "dom hist = {yf..yt}"
      by (auto simp: dom_def)
  }
qed

theorem statement_retrieval_aborts_on_first_api_error_witness:
  "fst (read_historical_financial_statement aapl_fundamentals_api ascii_upper ''AAPL''
          ''income_statement'' 2018 2020 (Some [''totalrevenue'']) empty_world)
     = Inl (DataError (Some (ApiException ''not found''))) \<and>
   api_log (snd (read_historical_financial_statement aapl_fundamentals_api ascii_upper ''AAPL''
          ''income_statement'' 2018 2020 (Some [''totalrevenue'']) empty_world))
     = [StandardizedFinancialsRequest ''AAPL-income_statement-2018-FY'',
        StandardizedFinancialsRequest ''AAPL-income_statement-2019-FY'',
        StandardizedFinancialsRequest ''AAPL-income_statement-2020-FY'']"
proof -
  have k: "statement_cache_key ''AAPL'' ''income_statement'' ''FY'' 2020
      \<noteq> statement_cache_key ''AAPL'' ''income_statement'' ''FY'' 2018"
    "statement_cache_key ''AAPL'' ''income_statement'' ''FY'' 2020
      \<noteq> statement_cache_key ''AAPL'' ''income_statement'' ''FY'' 2019"
    by (auto dest: statement_key_year_inj)
  have pre: "read_historical_financial_statement aapl_fundamentals_api ascii_upper ''AAPL''
       ''income_statement'' 2018 (2020 - 1) (Some [''totalrevenue'']) empty_world
     = (Inr [2018 \<mapsto> [''totalrevenue'' \<mapsto> 1000], 2019 \<mapsto> [''totalrevenue'' \<mapsto> 1100]],
        \<lparr>store = [Some (statement_cache_key ''AAPL'' ''income_statement'' ''FY'' 2018)
                    \<mapsto> StandardizedFinancialsResponse
                        [Financial ''totalrevenue'' 1000, Financial ''other'' 5],
                  Some (statement_cache_key ''AAPL'' ''income_statement'' ''FY'' 2019)
                    \<mapsto> StandardizedFinancialsResponse [Financial ''totalrevenue'' 1100]],
         api_log = [StandardizedFinancialsRequest ''AAPL-income_statement-2018-FY'',
                    StandardizedFinancialsRequest ''AAPL-income_statement-2019-FY'']\<rparr>)"
    using aapl_run by simp
  show ?thesis
    using statement_retrieval_aborts_on_first_api_error [where api = aapl_fundamentals_api
        and str_upper = ascii_upper and t = "''AAPL''" and n = "''income_statement''"
        and yf = 2018 and y = 2020 and yt = 2020 and tf = "Some [''totalrevenue'']"
        and w = "empty_world :: int world" and ex = "ApiException ''not found''",
        THEN conjunct1, rule_format, OF conjI [OF _ conjI [OF _ conjI [OF pre]]]] k
    by (simp add: ascii_upper_AAPL str_years cache_read_def aapl_fundamentals_api_def)
qed


section \<open>An empty series is a DataError\<close>

text \<open>
  Claim C4: when the cache has no entry and the service answers with a response whose
  record series is empty, the price operation and the metric-series operation both raise
  \<open>DataError\<close> (with no cause): not another exception, and not an empty mapping.
\<close>

theorem empty_series_raises_DataError:
  "(cache_read (store w) (Some (price_cache_key t (dts sd) (dts ed))) = PyNone \<and>
    api (api_log w) (StockPricesRequest t (dts sd) (dts ed)) = Returned (StockPricesResponse [])
    \<longrightarrow> fst (get_daily_stock_close_prices api dts t sd ed w) = Inl (DataError None)) \<and>
   (gfyp y1 0 = Inr (s1, x) \<and> gfyp y2 0 = Inr (x', e2) \<and>
    cache_read (store w) (Some (metric_cache_key t y1 y2 ''yearly'' tag)) = PyNone \<and>
    api (api_log w) (HistoricalDataRequest t tag ''yearly'' s1 e2)
      = Returned (HistoricalDataResponse [])
    \<longrightarrow> fst (read_financial_metrics api gfyp t y1 y2 tag w) = Inl (DataError None))"
proof (intro conjI impI)
  assume "cache_read (store w) (Some (price_cache_key t (dts sd) (dts ed))) = PyNone \<and>
    api (api_log w) (StockPricesRequest t (dts sd) (dts ed)) = Returned (StockPricesResponse [])"
  then show "fst (get_daily_stock_close_prices api dts t sd ed w) = Inl (DataError None)"
    using price_miss_returned [where dts = dts and sd = sd and ed = ed and t = t
      and w = w and api = api and ps = "[]"] by simp
next
  assume "gfyp y1 0 = Inr (s1, x) \<and> gfyp y2 0 = Inr (x', e2) \<and>
    cache_read (store w) (Some (metric_cache_key t y1 y2 ''yearly'' tag)) = PyNone \<and>
    api (api_log w) (HistoricalDataRequest t tag ''yearly'' s1 e2)
      = Returned (HistoricalDataResponse [])"
  then show "fst (read_financial_metrics api gfyp t y1 y2 tag w) = Inl (DataError None)"
    using metric_miss_returned [of gfyp y1 s1 x y2 x' e2 w t tag api "[]"] by simp
qed

theorem empty_series_raises_DataError_witness:
  "fst (get_daily_stock_close_prices empty_series_api date_to_string ''AAPL''
          (Date 2019 10 1) (Date 2019 10 4) empty_world) = Inl (DataError None) \<and>
   fst (read_financial_metrics empty_series_api calendar_year_period ''AAPL'' 2018 2019
          ''totalrevenue'' empty_world) = Inl (DataError None)"
  using empty_series_raises_DataError [where w = "empty_world :: int world"
      and api = empty_series_api and dts = date_to_string and t = "''AAPL''"
      and sd = "Date 2019 10 1" and ed = "Date 2019 10 4"
      and gfyp = calendar_year_period and ?y1.0 = 2018 and ?y2.0 = 2019
      and ?s1.0 = "str_int 2018 @ ''-01-01''" and x = "str_int 2018 @ ''-12-31''"
      and x' = "str_int 2019 @ ''-01-01''" and ?e2.0 = "str_int 2019 @ ''-12-31''"
      and tag = "''totalrevenue''"]
  by (simp add: empty_world_def cache_read_def empty_series_api_def calendar_year_period_def)

section \<open>The empty price response stays in the cache\<close>

text \<open>
  Claim C10: when the price service answers with zero records, the call raises \<open>DataError\<close>
  and yet leaves the empty response in the cache under the key of the request, after one
  external request. Every later call with the same arguments, whatever the service would
  answer, raises \<open>DataError\<close> again and changes neither the cache nor the request log; so the
  state it starts from is the state it ends in, for any number of later calls.
\<close>

theorem empty_price_response_is_cached:
  assumes "cache_read (store w) (Some (price_cache_key t (dts sd) (dts ed))) = PyNone"
    and "api (api_log w) (StockPricesRequest t (dts sd) (dts ed))
           = Returned (StockPricesResponse [])"
  shows "\<exists>w1. get_daily_stock_close_prices api dts t sd ed w = (Inl (DataError None), w1) \<and>
           store w1 (Some (price_cache_key t (dts sd) (dts ed)))
             = Some (StockPricesResponse []) \<and>
           api_log w1 = api_log w @ [StockPricesRequest t (dts sd) (dts ed)] \<and>
           (\<forall>api'. get_daily_stock_close_prices api' dts t sd ed w1
                      = (Inl (DataError None), w1))"
proof -
  let ?K = "Some (price_cache_key t (dts sd) (dts ed))"
  let ?w1 = "\<lparr>store = (store w)(?K \<mapsto> StockPricesResponse []),
              api_log = api_log w @ [StockPricesRequest t (dts sd) (dts ed)]\<rparr>"
  have first: "get_daily_stock_close_prices api dts t sd ed w = (Inl (DataError None), ?w1)"
    using price_miss_returned [where dts = dts and sd = sd and ed = ed and t = t
      and w = w and api = api and ps = "[]", OF assms] by simp
  have "cache_read (store ?w1) ?K = StockPricesResponse []"
    by (simp add: cache_read_def)
  then have later: "get_daily_stock_close_prices api' dts t sd ed ?w1
      = (Inl (DataError None), ?w1)" for api'
    using price_hit [where dts = dts and sd = sd and ed = ed and t = t
      and w = ?w1 and api = api' and ps = "[]"] by simp
  from first later show ?thesis by (intro exI [of _ ?w1]) simp
qed

theorem empty_price_response_is_cached_witness:
  "\<exists>w1. get_daily_stock_close_prices empty_series_api date_to_string ''AAPL''
          (Date 2019 10 1) (Date 2019 10 4) empty_world = (Inl (DataError None), w1) \<and>
        store w1 (Some (price_cache_key ''AAPL'' ''2019-10-01'' ''2019-10-04''))
          = Some (StockPricesResponse []) \<and>
        api_log w1 = [StockPricesRequest ''AAPL'' ''2019-10-01'' ''2019-10-04''] \<and>
        (\<forall>api'. get_daily_stock_close_prices api' date_to_string ''AAPL''
                   (Date 2019 10 1) (Date 2019 10 4) w1 = (Inl (DataError None), w1))"
  using empty_price_response_is_cached [where w = "empty_world :: int world"
      and api = empty_series_api and dts = date_to_string and t = "''AAPL''"
      and sd = "Date 2019 10 1" and ed = "Date 2019 10 4"]
  by (simp add: empty_world_def cache_read_def empty_series_api_def date_strings)


section \<open>The case of the ticker\<close>

text \<open>
  Claim C8 says that every operation upper-cases the ticker before it builds the cache key and
  the request. The statement operations do (\<open>statement_ticker_case_insensitive\<close>: tickers with
  the same upper-casing give the same run, \<^verbatim>\<open>aapl\<close> and \<^verbatim>\<open>AAPL\<close> among them); the price
  and metric operations use the ticker as given. Evaluated for the tickers \<^verbatim>\<open>aapl\<close> and
  \<^verbatim>\<open>AAPL\<close>: the price keys differ, the metric keys differ, and a price call for \<^verbatim>\<open>aapl\<close> right
  after one for \<^verbatim>\<open>AAPL\<close> issues a second external request, with the lower-case ticker.
\<close>

theorem ticker_case_not_normalised_for_prices_and_metrics:
  "ascii_upper ''aapl'' = ''AAPL'' \<and>
   price_cache_key ''aapl'' ''2019-10-01'' ''2019-10-04''
     \<noteq> price_cache_key ''AAPL'' ''2019-10-01'' ''2019-10-04'' \<and>
   metric_cache_key ''aapl'' 2018 2019 ''yearly'' ''totalrevenue''
     \<noteq> metric_cache_key ''AAPL'' 2018 2019 ''yearly'' ''totalrevenue'' \<and>
   api_log (snd (get_daily_stock_close_prices fake_security_api date_to_string ''aapl''
       (Date 2019 10 1) (Date 2019 10 4)
       (snd (get_daily_stock_close_prices fake_security_api date_to_string ''AAPL''
         (Date 2019 10 1) (Date 2019 10 4) empty_world))))
   = [StockPricesRequest ''AAPL'' ''2019-10-01'' ''2019-10-04'',
      StockPricesRequest ''aapl'' ''2019-10-01'' ''2019-10-04'']"
proof -
  have k: "price_cache_key ''aapl'' ''2019-10-01'' ''2019-10-04''
     \<noteq> price_cache_key ''AAPL'' ''2019-10-01'' ''2019-10-04''"
    by (simp add: price_cache_key_def)
  have mk: "metric_cache_key ''aapl'' 2018 2019 ''yearly'' ''totalrevenue''
     \<noteq> metric_cache_key ''AAPL'' 2018 2019 ''yearly'' ''totalrevenue''"
    by (simp add: metric_cache_key_def)
  have "api_log (snd (get_daily_stock_close_prices fake_security_api date_to_string ''aapl''
       (Date 2019 10 1) (Date 2019 10 4)
       (snd (get_daily_stock_close_prices fake_security_api date_to_string ''AAPL''
         (Date 2019 10 1) (Date 2019 10 4) empty_world))))
   = [StockPricesRequest ''AAPL'' ''2019-10-01'' ''2019-10-04'',
      StockPricesRequest ''aapl'' ''2019-10-01'' ''2019-10-04'']"
    unfolding fake_security_run
    using k
    by (simp add: get_daily_stock_close_prices_def Let_def date_strings
         fake_security_api_def cache_read_def cache_write_def stock_prices_def)
  with k mk show ?thesis by (simp add: ascii_upper_AAPL)
qed


end
